theory Spec2Isabelle
  imports Main "HOL-Library.Sublist"
begin

section \<open>Ojoya web client: API types\<close>

text \<open>
  The types of \<^verbatim>\<open>types/api.ts\<close> (in the sources, the second part of
  \<^verbatim>\<open>components/layout/PageLayout/PageLayout.tsx\<close>). Field names are global in a theory, so the fields
  of each interface carry a short prefix: \<open>v_\<close> for VisionResult, \<open>s_\<close> for
  SearchResult, \<open>p_\<close> for PriceResult, \<open>pi_\<close> for PriceInfo, \<open>ci_\<close> for
  ConfidenceInfo and \<open>resp_\<close> for AnalyzeResponse. A TypeScript \<^verbatim>\<open>T | null\<close> and an
  optional field \<^verbatim>\<open>f?: T\<close> are both \<open>T option\<close>. Prices are whole yen amounts,
  modelled as \<open>int\<close>; no modelled function computes with them.
\<close>

datatype Confidence = high | medium | low

datatype Classification = mass_product | unique_item | unknown | prohibited

datatype CategoryType = Cat_processable | Cat_unknown | Cat_prohibited

datatype SearchClassification = S_mass_product | S_unique_item

datatype PriceStatus = St_complete | St_error

datatype TerminationPoint =
  vision_prohibited | vision_unknown | search_unique | price_complete | price_error

record VisionResult =
  v_category_type :: CategoryType
  v_item_name :: "string option"
  v_visual_features :: "string list"
  v_confidence :: Confidence
  v_reasoning :: string
  v_retry_advice :: "string option"

record SearchResult =
  s_classification :: SearchClassification
  s_confidence :: Confidence
  s_reasoning :: string
  s_identified_product :: "string option"

record PriceResult =
  p_status :: PriceStatus
  p_min_price :: int
  p_max_price :: int
  p_currency :: string
  p_confidence :: Confidence
  p_display_message :: string
  p_price_factors :: "string list option"

record PriceInfo =
  pi_min_price :: int
  pi_max_price :: int
  pi_currency :: string
  pi_display_message :: string

record ConfidenceInfo =
  ci_level :: Confidence
  ci_reasoning :: string

record AnalyzeResponse =
  resp_appraisal_id :: "string option"
  resp_item_name :: "string option"
  resp_identified_product :: "string option"
  resp_visual_features :: "string list"
  resp_classification :: Classification
  resp_price :: "PriceInfo option"
  resp_confidence :: "ConfidenceInfo option"
  resp_price_factors :: "string list option"
  resp_message :: "string option"
  resp_recommendation :: "string option"
  resp_retry_advice :: "string option"

text \<open>
  AppraisalDocument. The interface declares \<^verbatim>\<open>vision\<close> as required, but every reader of
  a document in the client guards it (\<^verbatim>\<open>doc.vision?.item_name\<close>, \<^verbatim>\<open>doc.vision ? ... : null\<close>),
  so a stored document may lack it at run time and the model keeps it optional, like
  \<^verbatim>\<open>search\<close> and \<^verbatim>\<open>price\<close>. The fields no modelled function reads (timestamps, image
  URL, user comment, overall status) are left out.
\<close>

record AppraisalDocument =
  doc_id :: string
  vision :: "VisionResult option"
  search :: "SearchResult option"
  price :: "PriceResult option"
  termination_point :: TerminationPoint

section \<open>History reconstruction (HistoryPage.tsx)\<close>

text \<open>
  \<^verbatim>\<open>toAnalyzeResponse\<close> of \<^verbatim>\<open>pages/HistoryPage/HistoryPage.tsx\<close>, lines 21 to 59.
  Reading a property of \<^verbatim>\<open>undefined\<close> raises a TypeError in JavaScript. \<open>get_prop\<close> is the
  plain access \<^verbatim>\<open>x.f\<close>, \<open>optchain\<close> the guarded access \<^verbatim>\<open>x?.f\<close>, and \<open>and_then\<close>
  sequences two steps that may raise.
\<close>

datatype js_error = TypeError

definition get_prop :: "'a option \<Rightarrow> ('a \<Rightarrow> 'b) \<Rightarrow> js_error + 'b" where
  "get_prop x f = (case x of None \<Rightarrow> Inl TypeError | Some a \<Rightarrow> Inr (f a))"

definition optchain :: "'a option \<Rightarrow> ('a \<Rightarrow> 'b) \<Rightarrow> 'b option" where
  "optchain x f = (case x of None \<Rightarrow> None | Some a \<Rightarrow> Some (f a))"

definition and_then :: "js_error + 'a \<Rightarrow> ('a \<Rightarrow> js_error + 'b) \<Rightarrow> js_error + 'b" where
  "and_then r k = (case r of Inl e \<Rightarrow> Inl e | Inr a \<Rightarrow> k a)"

text \<open>The nested conditional that opens \<^verbatim>\<open>toAnalyzeResponse\<close>.\<close>

definition derive_classification :: "AppraisalDocument \<Rightarrow> Classification" where
  "derive_classification doc =
     (if termination_point doc = vision_prohibited then prohibited
      else if termination_point doc = vision_unknown then unknown
      else if optchain (search doc) s_classification = Some S_unique_item then unique_item
      else mass_product)"

text \<open>
  \<^verbatim>\<open>price: doc.price ? { min_price: doc.price.min_price, ... } : null\<close>: inside the
  guard the fields are read with plain accesses.
\<close>

definition build_price :: "AppraisalDocument \<Rightarrow> js_error + PriceInfo option" where
  "build_price doc =
     (if price doc \<noteq> None then
        and_then (get_prop (price doc) p_min_price) (\<lambda>mn.
        and_then (get_prop (price doc) p_max_price) (\<lambda>mx.
        and_then (get_prop (price doc) p_currency) (\<lambda>cur.
        and_then (get_prop (price doc) p_display_message) (\<lambda>msg.
          Inr (Some \<lparr>pi_min_price = mn, pi_max_price = mx,
                      pi_currency = cur, pi_display_message = msg\<rparr>)))))
      else Inr None)"

text \<open>
  \<^verbatim>\<open>level: doc.price?.confidence ?? doc.search?.confidence ?? doc.vision.confidence\<close> and
  \<^verbatim>\<open>reasoning: doc.search?.reasoning ?? doc.vision.reasoning\<close>, both under the guard
  \<^verbatim>\<open>doc.vision ? ... : null\<close>. The right operand of \<^verbatim>\<open>??\<close> is evaluated only when the
  left one is nullish.
\<close>

definition build_confidence :: "AppraisalDocument \<Rightarrow> js_error + ConfidenceInfo option" where
  "build_confidence doc =
     (if vision doc \<noteq> None then
        and_then
          (case optchain (price doc) p_confidence of
             Some c \<Rightarrow> Inr c
           | None \<Rightarrow>
               (case optchain (search doc) s_confidence of
                  Some c \<Rightarrow> Inr c
                | None \<Rightarrow> get_prop (vision doc) v_confidence)) (\<lambda>lvl.
        and_then
          (case optchain (search doc) s_reasoning of
             Some r \<Rightarrow> Inr r
           | None \<Rightarrow> get_prop (vision doc) v_reasoning) (\<lambda>rsn.
          Inr (Some \<lparr>ci_level = lvl, ci_reasoning = rsn\<rparr>)))
      else Inr None)"

definition toAnalyzeResponse :: "AppraisalDocument \<Rightarrow> js_error + AnalyzeResponse" where
  "toAnalyzeResponse doc =
     (let classification = derive_classification doc in
      and_then (build_price doc) (\<lambda>pr.
      and_then (build_confidence doc) (\<lambda>conf.
        Inr \<lparr>resp_appraisal_id = Some (doc_id doc),
             resp_item_name = Option.bind (vision doc) v_item_name,
             resp_identified_product = Option.bind (search doc) s_identified_product,
             resp_visual_features =
               (case optchain (vision doc) v_visual_features of Some fs \<Rightarrow> fs | None \<Rightarrow> []),
             resp_classification = classification,
             resp_price = pr,
             resp_confidence = conf,
             resp_price_factors = Option.bind (price doc) p_price_factors,
             resp_message = None,
             resp_recommendation = None,
             resp_retry_advice = Option.bind (vision doc) v_retry_advice\<rparr>)))"

text \<open>
  The list view of the same documents (\<^verbatim>\<open>getPriceDisplay\<close> and \<^verbatim>\<open>getStatusIcon\<close> of
  the AppraisalHistory component; in the sources, the last part of
  \<^verbatim>\<open>components/features/AppraisalResult/AppraisalResult.tsx\<close>) chooses its label and icon by the same four-way test.
  The labels and icons are Japanese text and emoji; each constructor stands for one
  literal of the source: the price label (gem icon), the "one of a kind" label (urn
  icon), the "not eligible" label (no-entry icon) and the "cannot be appraised" label
  (question-mark icon).
\<close>

datatype ListLabel = Label_price int | Label_unique | Label_not_eligible | Label_cannot_appraise

definition getPriceDisplay :: "AppraisalDocument \<Rightarrow> ListLabel" where
  "getPriceDisplay appraisal =
     (case price appraisal of
        Some p \<Rightarrow> Label_price (p_min_price p)
      | None \<Rightarrow>
          if optchain (search appraisal) s_classification = Some S_unique_item then Label_unique
          else if optchain (vision appraisal) v_category_type = Some Cat_prohibited
            then Label_not_eligible
          else Label_cannot_appraise)"

section \<open>The pipeline that produces the stored documents\<close>

text \<open>
  The pipeline orchestrator, the stage contract and the record builder's \<^verbatim>\<open>toRecord\<close>
  run in the backend, which is not among the sources; only the types of their results
  (\<^verbatim>\<open>types/api.ts\<close>) are. Every definition of this section is modelled from sections
  3, 4.1, 4.2, 4.4 and 6 of the specification.
\<close>

text \<open>Modelled from the spec: StageName, the ordered identity of a stage (section 3).\<close>

datatype StageName = Stage_vision | Stage_search | Stage_price

text \<open>Modelled from the spec: the decision of a StageResult (section 3).\<close>

datatype Decision = Continue | Terminate

text \<open>Modelled from the spec: the terminationReason of a StageResult (section 3).\<close>

datatype TerminationReason =
  R_prohibited | R_unidentifiable | R_unique_item | R_priced | R_price_failed

text \<open>
  Modelled from the spec: the payload of a StageResult, one variant per stage (sections
  3 and 9), holding the result types of \<^verbatim>\<open>types/api.ts\<close>.
\<close>

datatype StagePayload =
  VisionPayload VisionResult | SearchPayload SearchResult | PricePayload PriceResult

text \<open>Modelled from the spec: StageResult (section 3).\<close>

record StageResult =
  stage :: StageName
  decision :: Decision
  terminationReason :: "TerminationReason option"
  payload :: StagePayload

text \<open>
  Modelled from the spec: the three external backends of section 6, each a function of
  the context (the request and the results of the earlier stages). A failed call is
  reported by the backend's own result (category \<open>unknown\<close>, status \<open>error\<close>).
\<close>

record 'req Backends =
  classifyImage :: "'req \<Rightarrow> VisionResult"
  classifyMarket :: "'req \<Rightarrow> StageResult list \<Rightarrow> SearchResult"
  lookupPriceRange :: "'req \<Rightarrow> StageResult list \<Rightarrow> PriceResult"

text \<open>
  Modelled from the spec: the vision stage of section 4.1. It terminates on
  \<open>prohibited\<close> (reason \<open>prohibited\<close>) and on \<open>unknown\<close> (reason \<open>unidentifiable\<close>)
  and continues on \<open>processable\<close>.
\<close>

definition vision_stage :: "'req Backends \<Rightarrow> 'req \<times> StageResult list \<Rightarrow> StageResult" where
  "vision_stage bk ctx =
     (let v = classifyImage bk (fst ctx) in
      \<lparr>stage = Stage_vision,
       decision = (if v_category_type v = Cat_processable then Continue else Terminate),
       terminationReason =
         (case v_category_type v of
            Cat_processable \<Rightarrow> None
          | Cat_unknown \<Rightarrow> Some R_unidentifiable
          | Cat_prohibited \<Rightarrow> Some R_prohibited),
       payload = VisionPayload v\<rparr>)"

text \<open>
  Modelled from the spec: the search stage of section 4.1. It terminates on
  \<open>unique_item\<close> (reason \<open>unique_item\<close>) and continues on \<open>mass_product\<close>.
\<close>

definition search_stage :: "'req Backends \<Rightarrow> 'req \<times> StageResult list \<Rightarrow> StageResult" where
  "search_stage bk ctx =
     (let s = classifyMarket bk (fst ctx) (snd ctx) in
      \<lparr>stage = Stage_search,
       decision = (if s_classification s = S_unique_item then Terminate else Continue),
       terminationReason =
         (if s_classification s = S_unique_item then Some R_unique_item else None),
       payload = SearchPayload s\<rparr>)"

text \<open>
  Modelled from the spec: the price stage of section 4.1. It always terminates, with
  reason \<open>priced\<close> on success and \<open>price_failed\<close> on failure.
\<close>

definition price_stage :: "'req Backends \<Rightarrow> 'req \<times> StageResult list \<Rightarrow> StageResult" where
  "price_stage bk ctx =
     (let p = lookupPriceRange bk (fst ctx) (snd ctx) in
      \<lparr>stage = Stage_price,
       decision = Terminate,
       terminationReason = Some (if p_status p = St_complete then R_priced else R_price_failed),
       payload = PricePayload p\<rparr>)"

text \<open>
  Modelled from the spec: the orchestrator's loop of section 4.2 over a list of stages.
  \<open>continue\<close> appends the result and proceeds to the next stage, \<open>terminate\<close>
  appends the result and stops.
\<close>

fun run_stages ::
  "('req \<times> StageResult list \<Rightarrow> StageResult) list \<Rightarrow> 'req \<Rightarrow> StageResult list
     \<Rightarrow> StageResult list" where
  "run_stages [] req acc = acc"
| "run_stages (st # rest) req acc =
     (let r = st (req, acc) in
      if decision r = Continue then run_stages rest req (acc @ [r]) else acc @ [r])"

text \<open>
  Modelled from the spec: \<^verbatim>\<open>run\<close> of section 4.2, the loop over the stages in the fixed
  order vision, search, price. Its value is the completed StageResult sequence.
\<close>

definition run :: "'req Backends \<Rightarrow> 'req \<Rightarrow> StageResult list" where
  "run bk req = run_stages [vision_stage bk, search_stage bk, price_stage bk] req []"

text \<open>
  Modelled from the spec: the terminationReason of the last StageResult, which the
  priority rule of section 4.2 looks at.
\<close>

definition last_reason :: "StageResult list \<Rightarrow> TerminationReason option" where
  "last_reason rs = (if rs = [] then None else terminationReason (last rs))"

text \<open>
  Modelled from the spec: "a price StageResult exists with status success" (rule 4 of
  section 4.2), for one StageResult.
\<close>

definition price_succeeded :: "StageResult \<Rightarrow> bool" where
  "price_succeeded r =
     (case payload r of PricePayload p \<Rightarrow> stage r = Stage_price \<and> p_status p = St_complete
      | _ \<Rightarrow> False)"

text \<open>
  Modelled from the spec: the fixed priority rule of section 4.2, evaluated over the
  completed StageResult sequence.
\<close>

definition classify :: "StageResult list \<Rightarrow> Classification" where
  "classify rs =
     (if last_reason rs = Some R_prohibited then prohibited
      else if last_reason rs = Some R_unidentifiable then unknown
      else if last_reason rs = Some R_unique_item then unique_item
      else if list_ex price_succeeded rs then mass_product
      else unknown)"

text \<open>
  Modelled from the spec: the TerminationPoint of an outcome names the stage and reason
  that ended the run; the record keeps it as the fixed reason code of the terminal
  StageResult (section 4.4), written with the codes of \<^verbatim>\<open>types/api.ts\<close>.
\<close>

definition termination_point_of :: "StageResult list \<Rightarrow> TerminationPoint option" where
  "termination_point_of rs =
     (case last_reason rs of
        None \<Rightarrow> None
      | Some R_prohibited \<Rightarrow> Some vision_prohibited
      | Some R_unidentifiable \<Rightarrow> Some vision_unknown
      | Some R_unique_item \<Rightarrow> Some search_unique
      | Some R_priced \<Rightarrow> Some price_complete
      | Some R_price_failed \<Rightarrow> Some price_error)"

text \<open>Modelled from the spec: the vision payload of a StageResult sequence, if any.\<close>

fun vision_of :: "StageResult list \<Rightarrow> VisionResult option" where
  "vision_of [] = None"
| "vision_of (r # rs) = (case payload r of VisionPayload v \<Rightarrow> Some v | _ \<Rightarrow> vision_of rs)"

text \<open>Modelled from the spec: the search payload of a StageResult sequence, if any.\<close>

fun search_of :: "StageResult list \<Rightarrow> SearchResult option" where
  "search_of [] = None"
| "search_of (r # rs) = (case payload r of SearchPayload s \<Rightarrow> Some s | _ \<Rightarrow> search_of rs)"

text \<open>Modelled from the spec: the price payload of a StageResult sequence, if any.\<close>

fun price_of :: "StageResult list \<Rightarrow> PriceResult option" where
  "price_of [] = None"
| "price_of (r # rs) = (case payload r of PricePayload p \<Rightarrow> Some p | _ \<Rightarrow> price_of rs)"

text \<open>
  Modelled from the spec: \<^verbatim>\<open>toRecord\<close> of section 4.4 packages the per-stage payloads
  and the terminal reason code; it does not store the Classification. A sequence with no
  terminal reason has no record.
\<close>

definition toRecord :: "string \<Rightarrow> StageResult list \<Rightarrow> AppraisalDocument option" where
  "toRecord ident rs =
     (case termination_point_of rs of
        None \<Rightarrow> None
      | Some tp \<Rightarrow>
          Some \<lparr>doc_id = ident, vision = vision_of rs, search = search_of rs,
                price = price_of rs, termination_point = tp\<rparr>)"

text \<open>
  Modelled from the spec: the priority rule of section 4.2 read over a stored document.
  The terminal reason is the document's \<^verbatim>\<open>termination_point\<close>, and a price result with
  status success is a \<^verbatim>\<open>price\<close> field whose status is \<^verbatim>\<open>complete\<close>. This definition
  follows the specification's words; \<open>derive_classification\<close> is the one taken from
  the code.
\<close>

definition spec_priority_rule :: "AppraisalDocument \<Rightarrow> Classification" where
  "spec_priority_rule doc =
     (if termination_point doc = vision_prohibited then prohibited
      else if termination_point doc = vision_unknown then unknown
      else if termination_point doc = search_unique then unique_item
      else if optchain (price doc) p_status = Some St_complete then mass_product
      else unknown)"

section \<open>Sample inputs\<close>

text \<open>
  Scenario B of the specification (a mass-produced game console priced at
  12000 to 18000 JPY) and its variant in which the price lookup fails.
\<close>

definition sample_vision :: VisionResult where
  "sample_vision =
     \<lparr>v_category_type = Cat_processable, v_item_name = Some ''Nintendo Switch'',
      v_visual_features = [''console''], v_confidence = medium,
      v_reasoning = ''logo visible'', v_retry_advice = None\<rparr>"

definition sample_search :: SearchResult where
  "sample_search =
     \<lparr>s_classification = S_mass_product, s_confidence = high,
      s_reasoning = ''sold in volume'', s_identified_product = Some ''Nintendo Switch''\<rparr>"

definition sample_price :: "PriceStatus \<Rightarrow> PriceResult" where
  "sample_price st =
     \<lparr>p_status = st, p_min_price = 12000, p_max_price = 18000, p_currency = ''JPY'',
      p_confidence = high, p_display_message = ''used market'', p_price_factors = None\<rparr>"

definition sample_backends :: "PriceStatus \<Rightarrow> unit Backends" where
  "sample_backends st =
     \<lparr>classifyImage = (\<lambda>_. sample_vision),
      classifyMarket = (\<lambda>_ _. sample_search),
      lookupPriceRange = (\<lambda>_ _. sample_price st)\<rparr>"

definition price_failed_doc :: AppraisalDocument where
  "price_failed_doc =
     \<lparr>doc_id = ''a1'', vision = Some sample_vision, search = Some sample_search,
      price = Some (sample_price St_error), termination_point = price_error\<rparr>"

definition price_missing_doc :: AppraisalDocument where
  "price_missing_doc =
     \<lparr>doc_id = ''a2'', vision = Some sample_vision, search = Some sample_search,
      price = None, termination_point = price_error\<rparr>"

section \<open>JSON values\<close>

text \<open>
  What \<^verbatim>\<open>JSON.parse\<close> and \<^verbatim>\<open>response.json()\<close> return. An object is the list of its
  properties (distinct names). Numbers are kept as integers: the modelled code only tests
  them for zero. \<open>truthy\<close> is JavaScript's boolean coercion and \<open>field\<close> the property
  read \<^verbatim>\<open>v.k\<close> on a value other than \<^verbatim>\<open>null\<close>, where \<open>None\<close> is \<^verbatim>\<open>undefined\<close>.
\<close>

datatype json =
  JNull | JBool bool | JNum int | JStr string | JArr "json list" | JObj "(string \<times> json) list"

fun truthy :: "json \<Rightarrow> bool" where
  "truthy JNull = False"
| "truthy (JBool b) = b"
| "truthy (JNum n) = (n \<noteq> 0)"
| "truthy (JStr s) = (s \<noteq> [])"
| "truthy (JArr _) = True"
| "truthy (JObj _) = True"

fun field :: "json \<Rightarrow> string \<Rightarrow> json option" where
  "field (JObj kvs) k = map_of kvs k"
| "field _ k = None"

section \<open>SSE streaming client (lib/streaming.ts)\<close>

text \<open>
  The streaming client is the second part of \<^verbatim>\<open>lib/firebase.ts\<close> in the sources
  (lines 79 to 207). Strings are lists of code units below 256. \<open>is_space\<close> lists the characters of that
  range that \<^verbatim>\<open>String.prototype.trim\<close> removes: tab, line feed, vertical tab, form feed,
  carriage return, space and no-break space.
\<close>

definition newline :: char where
  "newline = CHR 0x0A"

definition is_space :: "char \<Rightarrow> bool" where
  "is_space c = (c \<in> set [CHR 0x09, CHR 0x0A, CHR 0x0B, CHR 0x0C, CHR 0x0D, CHR 0x20, CHR 0xA0])"

definition trim :: "string \<Rightarrow> string" where
  "trim s = rev (dropWhile is_space (rev (dropWhile is_space s)))"

text \<open>
  \<^verbatim>\<open>s.split('\n')\<close>: the pieces between line feeds; never empty (\<^verbatim>\<open>''.split('\n')\<close> is
  \<^verbatim>\<open>['']\<close>).
\<close>

fun split_nl :: "string \<Rightarrow> string list" where
  "split_nl [] = [[]]"
| "split_nl (c # cs) =
     (if c = newline then [] # split_nl cs
      else (case split_nl cs of [] \<Rightarrow> [[c]] | l # ls \<Rightarrow> (c # l) # ls))"

definition starts_with :: "string \<Rightarrow> string \<Rightarrow> bool" where
  "starts_with s p = (take (length p) s = p)"

text \<open>
  \<^verbatim>\<open>parseSSELine\<close>. \<^verbatim>\<open>JSON.parse\<close> belongs to the JavaScript runtime and is a parameter:
  \<open>None\<close> when it throws. The function's \<^verbatim>\<open>null\<close> is \<open>JNull\<close>, which is also what
  parsing the text \<^verbatim>\<open>null\<close> gives.
\<close>

definition parseSSELine :: "(string \<Rightarrow> json option) \<Rightarrow> string \<Rightarrow> json" where
  "parseSSELine JSON_parse line =
     (if \<not> starts_with line ''data: '' then JNull
      else
        (let jsonStr = drop 6 line in
         if jsonStr = [] \<or> jsonStr = ''[DONE]'' then JNull
         else (case JSON_parse jsonStr of None \<Rightarrow> JNull | Some v \<Rightarrow> v)))"

text \<open>
  Exceptions of the runtime: an Error object with its name and the argument its
  constructor was given (its message is that argument's string form), or a thrown value
  that is not an Error. An aborted fetch or read rejects with an error named AbortError.
\<close>

datatype js_exn = Err string "json option" | Thrown_value

fun is_abort :: "js_exn \<Rightarrow> bool" where
  "is_abort (Err name _) = (name = ''AbortError'')"
| "is_abort Thrown_value = False"

text \<open>The three callbacks of \<^verbatim>\<open>StreamingCallbacks\<close>; a run of the client is the list of its calls.\<close>

datatype callback = OnThinking json | OnComplete "json option" | OnError js_exn

text \<open>The \<^verbatim>\<open>if / else if / else if\<close> chain on \<^verbatim>\<open>event.type\<close>, for a truthy event.\<close>

definition dispatch :: "json \<Rightarrow> callback list" where
  "dispatch event =
     (if field event ''type'' = Some (JStr ''complete'') then [OnComplete (field event ''result'')]
      else if field event ''type'' = Some (JStr ''error'')
        then [OnError (Err ''Error'' (field event ''message''))]
      else if field event ''type'' \<noteq> Some (JStr ''node_complete'') then [OnThinking event]
      else [])"

text \<open>The body of \<^verbatim>\<open>for (const line of lines)\<close>.\<close>

definition process_line :: "(string \<Rightarrow> json option) \<Rightarrow> string \<Rightarrow> callback list" where
  "process_line JSON_parse line =
     (let trimmedLine = trim line in
      if trimmedLine = [] then []
      else
        (let event = parseSSELine JSON_parse trimmedLine in
         if \<not> truthy event then [] else dispatch event))"

text \<open>
  The \<^verbatim>\<open>while (true)\<close> loop over the chunks the reader delivers (each already decoded to
  text), with the buffer of the incomplete last line. It returns the calls made and the
  buffer left when the reader is exhausted.
\<close>

fun read_loop ::
  "(string \<Rightarrow> json option) \<Rightarrow> string list \<Rightarrow> string \<Rightarrow> callback list \<times> string" where
  "read_loop JSON_parse [] buffer = ([], buffer)"
| "read_loop JSON_parse (chunk # chunks) buffer =
     (let lines = split_nl (buffer @ chunk);
          calls = concat (map (process_line JSON_parse) (butlast lines));
          rest = read_loop JSON_parse chunks (last lines)
      in (calls @ fst rest, snd rest))"

text \<open>The block after the loop: \<^verbatim>\<open>if (buffer.trim()) { ... }\<close>.\<close>

definition flush_buffer :: "(string \<Rightarrow> json option) \<Rightarrow> string \<Rightarrow> callback list" where
  "flush_buffer JSON_parse buffer =
     (if trim buffer \<noteq> [] then
        (let event = parseSSELine JSON_parse (trim buffer) in
         if truthy event then dispatch event else [])
      else [])"

text \<open>
  What the network does to one request: the fetch rejects, or it resolves to a response
  with its \<^verbatim>\<open>ok\<close> flag, the result of \<^verbatim>\<open>response.json()\<close> (\<open>None\<close> when that rejects)
  and its body: none, or the chunks the reader delivers followed by the end of the
  stream or by a rejected \<^verbatim>\<open>read()\<close>.
\<close>

datatype read_end = Done | Read_rejects js_exn

datatype response_body = No_body | Body "string list" read_end

datatype fetch_result = Fetch_rejects js_exn | Response bool "json option" response_body

text \<open>The \<^verbatim>\<open>catch\<close> block of \<^verbatim>\<open>fetchStream\<close>.\<close>

definition catch_block :: "js_exn \<Rightarrow> callback list" where
  "catch_block e =
     (if is_abort e then []
      else [OnError (case e of Err name arg \<Rightarrow> e
                      | Thrown_value \<Rightarrow> Err ''Error'' (Some (JStr ''Unknown error'')))])"

text \<open>
  The error message of a response that is not ok: \<^verbatim>\<open>errorData.detail || errorMessage\<close>,
  or the default when reading the body or the property raises.
\<close>

definition error_message :: "json option \<Rightarrow> json" where
  "error_message errorData =
     (case errorData of
        None \<Rightarrow> JStr ''API request failed''
      | Some JNull \<Rightarrow> JStr ''API request failed''
      | Some d \<Rightarrow>
          (case field d ''detail'' of
             None \<Rightarrow> JStr ''API request failed''
           | Some m \<Rightarrow> if truthy m then m else JStr ''API request failed''))"

text \<open>
  \<^verbatim>\<open>createAnalysisStream\<close>: the calls made on the callbacks for one request. The
  Authorization header is not modelled; the callbacks do not depend on it.
\<close>

definition createAnalysisStream :: "(string \<Rightarrow> json option) \<Rightarrow> fetch_result \<Rightarrow> callback list" where
  "createAnalysisStream JSON_parse net =
     (case net of
        Fetch_rejects e \<Rightarrow> catch_block e
      | Response ok errorData body \<Rightarrow>
          if \<not> ok then catch_block (Err ''Error'' (Some (error_message errorData)))
          else
            (case body of
               No_body \<Rightarrow> catch_block (Err ''Error'' (Some (JStr ''No response body'')))
             | Body chunks ending \<Rightarrow>
                 (let looped = read_loop JSON_parse chunks [] in
                  case ending of
                    Done \<Rightarrow> fst looped @ flush_buffer JSON_parse (snd looped)
                  | Read_rejects e \<Rightarrow> fst looped @ catch_block e)))"

text \<open>Terminal calls and the events that cause them.\<close>

fun is_terminal_call :: "callback \<Rightarrow> bool" where
  "is_terminal_call (OnThinking _) = False"
| "is_terminal_call (OnComplete _) = True"
| "is_terminal_call (OnError _) = True"

definition event_type :: "json \<Rightarrow> json option" where
  "event_type event = field event ''type''"

definition is_terminal_event :: "json \<Rightarrow> bool" where
  "is_terminal_event event =
     (event_type event = Some (JStr ''complete'') \<or> event_type event = Some (JStr ''error''))"

text \<open>
  The events of a whole stream text: the truthy values parsed from its non-blank
  trimmed lines, in the order of the lines.
\<close>

definition line_events :: "(string \<Rightarrow> json option) \<Rightarrow> string \<Rightarrow> json list" where
  "line_events JSON_parse line =
     (if trim line = [] then []
      else if truthy (parseSSELine JSON_parse (trim line))
        then [parseSSELine JSON_parse (trim line)]
      else [])"

definition stream_events :: "(string \<Rightarrow> json option) \<Rightarrow> string \<Rightarrow> json list" where
  "stream_events JSON_parse text = concat (map (line_events JSON_parse) (split_nl text))"

fun thinking_payloads :: "callback list \<Rightarrow> json list" where
  "thinking_payloads [] = []"
| "thinking_payloads (OnThinking e # cs) = e # thinking_payloads cs"
| "thinking_payloads (_ # cs) = thinking_payloads cs"

text \<open>
  A table of \<^verbatim>\<open>JSON.parse\<close> for the sample streams below: the value of each of the five
  JSON texts used there. It answers \<open>None\<close> on any other text, so the samples contain
  no other text after a \<^verbatim>\<open>data: \<close> prefix.
\<close>

definition txt_thinking :: string where
  \<open>txt_thinking = ''{"type":"thinking","message":"looking"}''\<close>

definition txt_node_complete :: string where
  \<open>txt_node_complete = ''{"type":"node_complete","message":"vision done"}''\<close>

definition txt_complete :: string where
  \<open>txt_complete = ''{"type":"complete","result":"r"}''\<close>

definition txt_error :: string where
  \<open>txt_error = ''{"type":"error","message":"boom"}''\<close>

definition ev_thinking :: json where
  "ev_thinking = JObj [(''type'', JStr ''thinking''), (''message'', JStr ''looking'')]"

definition ev_node_complete :: json where
  "ev_node_complete = JObj [(''type'', JStr ''node_complete''), (''message'', JStr ''vision done'')]"

definition ev_complete :: json where
  "ev_complete = JObj [(''type'', JStr ''complete''), (''result'', JStr ''r'')]"

definition ev_error :: json where
  "ev_error = JObj [(''type'', JStr ''error''), (''message'', JStr ''boom'')]"

definition sample_parse :: "string \<Rightarrow> json option" where
  "sample_parse s =
     (if s = txt_thinking then Some ev_thinking
      else if s = txt_node_complete then Some ev_node_complete
      else if s = txt_complete then Some ev_complete
      else if s = txt_error then Some ev_error
      else if s = ''null'' then Some JNull
      else None)"

text \<open>One line of the wire format: \<^verbatim>\<open>data: <json>\<close> and the blank line after it.\<close>

definition sse_frame :: "string \<Rightarrow> string" where
  "sse_frame txt = ''data: '' @ txt @ [newline, newline]"




section \<open>Streaming analysis hook (hooks/useStreamingAnalysis.ts)\<close>








section \<open>Image picker (components/features/ImagePicker)\<close>

definition VALID_TYPES :: "string list" where
  "VALID_TYPES = [''image/jpeg'', ''image/png'', ''image/webp'']"

definition MAX_SIZE :: nat where
  "MAX_SIZE = 10 * 1024 * 1024"

record File =
  file_type :: string
  file_size :: nat

text \<open>
  The three error messages of the component are Japanese sentences; each constructor
  stands for one of them: wrong format, larger than 10MB, and failure to read the image.
\<close>

datatype picker_message = Msg_select_jpeg_png_webp | Msg_at_most_10MB | Msg_read_failed

record picker_state =
  ip_preview :: "string option"
  ip_error :: "picker_message option"

text \<open>What the FileReader does with the file: it loads it as a data URL, or it fails.\<close>

datatype reader_outcome = Loaded string | Read_failed

text \<open>
  \<^verbatim>\<open>processFile\<close>, with the reader's event handler run in the same step. The result is
  the new state and the list of arguments \<^verbatim>\<open>onImageSelect\<close> was called with.
\<close>

definition processFile :: "File \<Rightarrow> reader_outcome \<Rightarrow> picker_state \<Rightarrow> picker_state \<times> string list" where
  "processFile file reader s =
     (let s0 = s\<lparr>ip_error := None\<rparr> in
      if file_type file \<notin> set VALID_TYPES then
        (s0\<lparr>ip_error := Some Msg_select_jpeg_png_webp\<rparr>, [])
      else if file_size file > MAX_SIZE then
        (s0\<lparr>ip_error := Some Msg_at_most_10MB\<rparr>, [])
      else
        (case reader of
           Loaded base64 \<Rightarrow> (s0\<lparr>ip_preview := Some base64\<rparr>, [base64])
         | Read_failed \<Rightarrow> (s0\<lparr>ip_error := Some Msg_read_failed\<rparr>, [])))"

section \<open>API client (lib/api.ts)\<close>

text \<open>
  The API client is the second part of \<^verbatim>\<open>hooks/useStreamingAnalysis.ts\<close> in the
  sources (lines 124 to 217). The Firebase side: whether Firebase is configured, and the signed-in user with the
  results of \<^verbatim>\<open>getIdToken()\<close> and of the forced \<^verbatim>\<open>getIdToken(true)\<close> (\<open>None\<close> when the
  call rejects).
\<close>

record AuthUser =
  getIdToken :: "string option"
  getIdToken_forced :: "string option"

record AuthEnv =
  isFirebaseConfigured :: bool
  currentUser :: "AuthUser option"

record ApiRequest =
  req_url :: string
  req_method :: string
  req_authorization :: "string option"
  req_body :: "json option"

record HttpResponse =
  status :: nat
  json_body :: "json option"

text \<open>\<^verbatim>\<open>response.ok\<close>: the status is in the range 200 to 299.\<close>

definition ok :: "HttpResponse \<Rightarrow> bool" where
  "ok r = (200 \<le> status r \<and> status r \<le> 299)"

datatype fetch_outcome = Network_error | Responded HttpResponse

text \<open>What a call of \<^verbatim>\<open>apiRequest\<close> does to the outside, in order.\<close>

datatype api_effect = GetIdToken bool | Fetch ApiRequest

text \<open>
  How \<^verbatim>\<open>apiRequest\<close> can reject: with an ApiError (status and detail), with the TypeError
  of reading a property of \<^verbatim>\<open>null\<close>, with the rejection of \<^verbatim>\<open>fetch\<close>, or with the
  rejection of \<^verbatim>\<open>response.json()\<close> on an ok response.
\<close>

datatype api_failure = ApiError nat json | Property_of_null | Fetch_failed | Json_failed

record RequestOptions =
  opt_method :: "string option"
  opt_body :: "json option"
  opt_requireAuth :: "bool option"

definition getAuthToken :: "AuthEnv \<Rightarrow> string option \<times> api_effect list" where
  "getAuthToken env =
     (if \<not> isFirebaseConfigured env \<or> currentUser env = None then (None, [])
      else (Option.bind (currentUser env) getIdToken, [GetIdToken False]))"

definition refreshAuthToken :: "AuthEnv \<Rightarrow> string option \<times> api_effect list" where
  "refreshAuthToken env =
     (if \<not> isFirebaseConfigured env \<or> currentUser env = None then (None, [])
      else (Option.bind (currentUser env) getIdToken_forced, [GetIdToken True]))"

text \<open>A token is used when it is truthy: present and not the empty string.\<close>

definition usable :: "string option \<Rightarrow> bool" where
  "usable token = (case token of None \<Rightarrow> False | Some t \<Rightarrow> t \<noteq> [])"

definition bearer :: "string option \<Rightarrow> string option" where
  "bearer token =
     (case token of None \<Rightarrow> None
      | Some t \<Rightarrow> if usable token then Some (''Bearer '' @ t) else None)"

text \<open>
  The constructor of \<^verbatim>\<open>ApiError\<close>: \<^verbatim>\<open>response.detail || 'An error occurred'\<close>, which
  raises when \<^verbatim>\<open>response\<close> is \<^verbatim>\<open>null\<close>.
\<close>

definition new_ApiError :: "nat \<Rightarrow> json \<Rightarrow> api_failure" where
  "new_ApiError st response =
     (case response of
        JNull \<Rightarrow> Property_of_null
      | _ \<Rightarrow>
          ApiError st
            (case field response ''detail'' of
               None \<Rightarrow> JStr ''An error occurred''
             | Some d \<Rightarrow> if truthy d then d else JStr ''An error occurred''))"

text \<open>
  The first part of \<^verbatim>\<open>apiRequest\<close>: the defaults of the options, the token, the
  request, and the retry after a 401. Of the headers only Authorization is modelled; the
  Content-Type header is the same in every request. The network is a function of the number of the
  fetch (0, then 1 for the retry) and the request. The result of \<open>send_request\<close> is the
  value of the variable \<^verbatim>\<open>response\<close> when the retry block is left, with the effects.
\<close>

definition requireAuth_of :: "RequestOptions \<Rightarrow> bool" where
  "requireAuth_of options = (case opt_requireAuth options of None \<Rightarrow> True | Some b \<Rightarrow> b)"

definition first_token :: "AuthEnv \<Rightarrow> RequestOptions \<Rightarrow> string option \<times> api_effect list" where
  "first_token env options = (if requireAuth_of options then getAuthToken env else (None, []))"

definition first_request :: "string \<Rightarrow> AuthEnv \<Rightarrow> string \<Rightarrow> RequestOptions \<Rightarrow> ApiRequest" where
  "first_request API_BASE_URL env endpoint options =
     \<lparr>req_url = API_BASE_URL @ endpoint,
      req_method = (case opt_method options of None \<Rightarrow> ''GET'' | Some m \<Rightarrow> m),
      req_authorization = bearer (fst (first_token env options)),
      req_body = (case opt_body options of None \<Rightarrow> None
                  | Some b \<Rightarrow> if truthy b then Some b else None)\<rparr>"

definition send_request ::
  "string \<Rightarrow> AuthEnv \<Rightarrow> (nat \<Rightarrow> ApiRequest \<Rightarrow> fetch_outcome) \<Rightarrow> string \<Rightarrow> RequestOptions
     \<Rightarrow> fetch_outcome \<times> api_effect list" where
  "send_request API_BASE_URL env fetch endpoint options =
     (let request = first_request API_BASE_URL env endpoint options;
          sent = snd (first_token env options) @ [Fetch request]
      in case fetch 0 request of
           Network_error \<Rightarrow> (Network_error, sent)
         | Responded response \<Rightarrow>
             if status response = 401 \<and> requireAuth_of options then
               (let newToken = refreshAuthToken env in
                if usable (fst newToken) then
                  (let retry = request\<lparr>req_authorization := bearer (fst newToken)\<rparr>
                   in (fetch 1 retry, sent @ snd newToken @ [Fetch retry]))
                else (Responded response, sent @ snd newToken))
             else (Responded response, sent))"

text \<open>The second part: \<^verbatim>\<open>if (!response.ok) { ... throw ... } return response.json()\<close>.\<close>

definition read_response :: "HttpResponse \<Rightarrow> api_failure + json" where
  "read_response response =
     (if \<not> ok response then
        Inl (new_ApiError (status response)
               (case json_body response of
                  None \<Rightarrow> JObj [(''detail'', JStr ''An error occurred'')]
                | Some errorData \<Rightarrow> errorData))
      else (case json_body response of None \<Rightarrow> Inl Json_failed | Some v \<Rightarrow> Inr v))"

definition apiRequest ::
  "string \<Rightarrow> AuthEnv \<Rightarrow> (nat \<Rightarrow> ApiRequest \<Rightarrow> fetch_outcome) \<Rightarrow> string \<Rightarrow> RequestOptions
     \<Rightarrow> (api_failure + json) \<times> api_effect list" where
  "apiRequest API_BASE_URL env fetch endpoint options =
     (let sent = send_request API_BASE_URL env fetch endpoint options
      in (case fst sent of
            Network_error \<Rightarrow> Inl Fetch_failed
          | Responded response \<Rightarrow> read_response response,
          snd sent))"

fun is_fetch :: "api_effect \<Rightarrow> bool" where
  "is_fetch (Fetch _) = True"
| "is_fetch (GetIdToken _) = False"

definition is_forced_refresh :: "api_effect \<Rightarrow> bool" where
  "is_forced_refresh e = (e = GetIdToken True)"

section \<open>Appraisal history (lib/api.ts, hooks/useAppraisalHistory.ts)\<close>

text \<open>
  The numbers of the hook are JavaScript numbers (IEEE 754 doubles). A page size is a
  non-negative integer-valued double, written as the natural number it is; an offset is
  such a number or \<^verbatim>\<open>Infinity\<close>, which a sum of two of them can overflow to.
\<close>

datatype js_num = Num nat | Infinity

text \<open>
  The double nearest to a natural number, ties to the even significand, as long as the
  result is below \<open>2^1024\<close>. \<open>shift_count n\<close> is the number of low bits that do not fit
  into the 53 bits of the significand.
\<close>

fun shift_count :: "nat \<Rightarrow> nat" where
  "shift_count n = (if n < 2 ^ 53 then 0 else Suc (shift_count (n div 2)))"

declare shift_count.simps [simp del]

definition to_double :: "nat \<Rightarrow> nat" where
  "to_double n =
     (let e = shift_count n; q = n div 2 ^ e; r = n mod 2 ^ e
      in (if 2 * r > 2 ^ e \<or> (2 * r = 2 ^ e \<and> odd q) then q + 1 else q) * 2 ^ e)"

text \<open>
  \<^verbatim>\<open>a + b\<close> on these numbers: the exact sum rounded to the nearest double, and
  \<^verbatim>\<open>Infinity\<close> when that is \<open>2^1024\<close> or more or when an operand is \<^verbatim>\<open>Infinity\<close>.
\<close>

fun js_add :: "js_num \<Rightarrow> js_num \<Rightarrow> js_num" where
  "js_add (Num a) (Num b) =
     (if to_double (a + b) < 2 ^ 1024 then Num (to_double (a + b)) else Infinity)"
| "js_add _ _ = Infinity"

text \<open>
  \<^verbatim>\<open>getAppraisalHistory\<close> passes this endpoint to \<^verbatim>\<open>apiRequest\<close>, with
  \<^verbatim>\<open>requireAuth: true\<close>. The text a template literal gives a number
  (\<^verbatim>\<open>Number.prototype.toString\<close>) belongs to the JavaScript runtime and is the parameter
  \<open>num_text\<close>.
\<close>

definition history_endpoint :: "(js_num \<Rightarrow> string) \<Rightarrow> nat \<Rightarrow> js_num \<Rightarrow> string" where
  "history_endpoint num_text limit offset =
     ''/api/v1/appraisals?limit='' @ num_text (Num limit) @ ''&offset='' @ num_text offset"

text \<open>
  The response of the endpoint as the hook reads it: \<^verbatim>\<open>data.appraisals\<close> and
  \<^verbatim>\<open>data.total\<close>, either of which may be missing. The total is only compared with the
  number of loaded documents; it is represented by the least natural number that is not
  below it, which decides \<^verbatim>\<open>length >= total\<close> and \<^verbatim>\<open>length < total\<close> as the number
  itself does.
\<close>

record AppraisalHistoryResponse =
  hr_appraisals :: "AppraisalDocument list option"
  hr_total :: "nat option"

record history_state =
  h_appraisals :: "AppraisalDocument list"
  h_total :: nat
  h_loading :: bool
  h_error :: "js_exn option"
  h_offset :: js_num

text \<open>
  \<^verbatim>\<open>fetchHistory\<close>, run to completion as one step. \<open>user\<close> tells whether a user is signed
  in; \<open>api\<close> is the server seen through \<^verbatim>\<open>getAppraisalHistory\<close>, a function of the
  endpoint requested. The result is the new state and the endpoints requested.
\<close>

definition fetchHistory ::
  "bool \<Rightarrow> nat \<Rightarrow> (js_num \<Rightarrow> string) \<Rightarrow> (string \<Rightarrow> js_exn + AppraisalHistoryResponse)
     \<Rightarrow> bool \<Rightarrow> history_state \<Rightarrow> history_state \<times> string list" where
  "fetchHistory user limit num_text api reset_flag s =
     (if \<not> user then (s\<lparr>h_appraisals := [], h_total := 0, h_loading := False\<rparr>, [])
      else
        (let s1 = s\<lparr>h_loading := True, h_error := None\<rparr>;
             currentOffset = (if reset_flag then Num 0 else h_offset s);
             endpoint = history_endpoint num_text limit currentOffset
         in case api endpoint of
              Inr data \<Rightarrow>
                (let appraisalList = (case hr_appraisals data of None \<Rightarrow> [] | Some l \<Rightarrow> l);
                     s2 = (if reset_flag
                           then s1\<lparr>h_appraisals := appraisalList, h_offset := Num limit\<rparr>
                           else s1\<lparr>h_appraisals := h_appraisals s1 @ appraisalList,
                                   h_offset := js_add (h_offset s1) (Num limit)\<rparr>)
                 in (s2\<lparr>h_total := (case hr_total data of None \<Rightarrow> 0 | Some t \<Rightarrow> t),
                         h_loading := False\<rparr>, [endpoint]))
            | Inl err \<Rightarrow>
                (s1\<lparr>h_error :=
                       Some (case err of Err name arg \<Rightarrow> err
                             | Thrown_value \<Rightarrow> Err ''Error'' (Some (JStr ''Unknown error''))),
                     h_loading := False\<rparr>, [endpoint])))"

definition refresh ::
  "bool \<Rightarrow> nat \<Rightarrow> (js_num \<Rightarrow> string) \<Rightarrow> (string \<Rightarrow> js_exn + AppraisalHistoryResponse)
     \<Rightarrow> history_state \<Rightarrow> history_state \<times> string list" where
  "refresh user limit num_text api s =
     fetchHistory user limit num_text api True (s\<lparr>h_offset := Num 0\<rparr>)"

definition loadMore ::
  "bool \<Rightarrow> nat \<Rightarrow> (js_num \<Rightarrow> string) \<Rightarrow> (string \<Rightarrow> js_exn + AppraisalHistoryResponse)
     \<Rightarrow> history_state \<Rightarrow> history_state \<times> string list" where
  "loadMore user limit num_text api s =
     (if h_loading s \<or> length (h_appraisals s) \<ge> h_total s then (s, [])
      else fetchHistory user limit num_text api False s)"

definition hasMore :: "history_state \<Rightarrow> bool" where
  "hasMore s = (length (h_appraisals s) < h_total s)"

text \<open>
  A table of the text of the numbers used in the samples below; no sample passes any
  other number to it.
\<close>

definition sample_num_text :: "js_num \<Rightarrow> string" where
  "sample_num_text x =
     (if x = Num 0 then ''0''
      else if x = Num 2 then ''2''
      else if x = Num 4 then ''4''
      else if x = Num 9007199254740991 then ''9007199254740991''
      else if x = Num 18014398509481982 then ''18014398509481982''
      else [])"

text \<open>A server holding three documents, asked for pages of two.\<close>

definition sample_doc :: "string \<Rightarrow> AppraisalDocument" where
  "sample_doc ident =
     \<lparr>doc_id = ident, vision = Some sample_vision, search = Some sample_search,
      price = Some (sample_price St_complete), termination_point = price_complete\<rparr>"

definition sample_server :: "string \<Rightarrow> js_exn + AppraisalHistoryResponse" where
  "sample_server endpoint =
     (if endpoint = ''/api/v1/appraisals?limit=2&offset=0''
        then Inr \<lparr>hr_appraisals = Some [sample_doc ''d1'', sample_doc ''d2''], hr_total = Some 3\<rparr>
      else if endpoint = ''/api/v1/appraisals?limit=2&offset=2''
        then Inr \<lparr>hr_appraisals = Some [sample_doc ''d3''], hr_total = Some 3\<rparr>
      else Inl (Err ''ApiError'' (Some (JStr ''Not Found''))))"

definition history_page1 :: history_state where
  "history_page1 =
     \<lparr>h_appraisals = [sample_doc ''d1'', sample_doc ''d2''], h_total = 3,
      h_loading = False, h_error = None, h_offset = Num 2\<rparr>"

text \<open>
  A hook whose page size is the largest safe integer \<open>2^53 - 1\<close>, with a server that
  answers every request with one more document of five.
\<close>

definition largest_safe_integer :: nat where
  "largest_safe_integer = 9007199254740991"

definition one_more_server :: "string \<Rightarrow> js_exn + AppraisalHistoryResponse" where
  "one_more_server endpoint = Inr \<lparr>hr_appraisals = Some [sample_doc ''d3''], hr_total = Some 5\<rparr>"

section \<open>Vocabulary for the properties of the streaming client\<close>

text \<open>
  The events of the complete lines of a text: those of every line but the unterminated
  last one. These are the events read before a \<^verbatim>\<open>read()\<close> that rejects.
\<close>

definition complete_line_events :: "(string \<Rightarrow> json option) \<Rightarrow> string \<Rightarrow> json list" where
  "complete_line_events JSON_parse text =
     concat (map (line_events JSON_parse) (butlast (split_nl text)))"

definition is_node_complete :: "json \<Rightarrow> bool" where
  "is_node_complete event = (event_type event = Some (JStr ''node_complete''))"

definition is_thinking_event :: "json \<Rightarrow> bool" where
  "is_thinking_event event = (\<not> is_terminal_event event \<and> \<not> is_node_complete event)"

fun is_complete_call :: "callback \<Rightarrow> bool" where
  "is_complete_call (OnComplete _) = True"
| "is_complete_call _ = False"

fun is_error_call :: "callback \<Rightarrow> bool" where
  "is_error_call (OnError _) = True"
| "is_error_call _ = False"

definition network_error :: js_exn where
  "network_error = Err ''TypeError'' (Some (JStr ''network error''))"

section \<open>Sample inputs for the image picker, the API client and the hooks\<close>

definition png_10MB :: File where
  "png_10MB = \<lparr>file_type = ''image/png'', file_size = 10485760\<rparr>"

definition png_too_large :: File where
  "png_too_large = \<lparr>file_type = ''image/png'', file_size = 10485761\<rparr>"

definition gif_small :: File where
  "gif_small = \<lparr>file_type = ''image/gif'', file_size = 5\<rparr>"

definition picker_initial :: picker_state where
  "picker_initial = \<lparr>ip_preview = None, ip_error = None\<rparr>"

text \<open>
  A signed-in user whose token has expired: the server answers 401 to every request
  but the one that carries the refreshed token.
\<close>

definition signed_in :: AuthEnv where
  "signed_in =
     \<lparr>isFirebaseConfigured = True,
      currentUser = Some \<lparr>getIdToken = Some ''old'', getIdToken_forced = Some ''new''\<rparr>\<rparr>"

definition signed_out :: AuthEnv where
  "signed_out = \<lparr>isFirebaseConfigured = True, currentUser = None\<rparr>"

definition expiring_server :: "nat \<Rightarrow> ApiRequest \<Rightarrow> fetch_outcome" where
  "expiring_server n request =
     (if req_authorization request = Some ''Bearer new''
      then Responded \<lparr>status = 200, json_body = Some (JObj [(''total'', JNum 0)])\<rparr>
      else Responded \<lparr>status = 401,
                      json_body = Some (JObj [(''detail'', JStr ''Token expired'')])\<rparr>)"

text \<open>A server that answers 500 with the JSON text \<^verbatim>\<open>null\<close> as its body.\<close>

definition null_body_server :: "nat \<Rightarrow> ApiRequest \<Rightarrow> fetch_outcome" where
  "null_body_server n request = Responded \<lparr>status = 500, json_body = Some JNull\<rparr>"

text \<open>A gateway that answers 502 with a body that is not JSON.\<close>

definition not_json_server :: "nat \<Rightarrow> ApiRequest \<Rightarrow> fetch_outcome" where
  "not_json_server n request = Responded \<lparr>status = 502, json_body = None\<rparr>"



text \<open>The state of the history hook before its first fetch.\<close>

definition history_initial :: history_state where
  "history_initial =
     \<lparr>h_appraisals = [], h_total = 0, h_loading = True, h_error = None, h_offset = Num 0\<rparr>"

definition default_options :: RequestOptions where
  "default_options = \<lparr>opt_method = None, opt_body = None, opt_requireAuth = None\<rparr>"

section \<open>History reconstruction: properties\<close>

lemma build_price_ok: "\<exists>pr. build_price doc = Inr pr"
  by (cases "price doc") (simp_all add: build_price_def and_then_def get_prop_def)

lemma build_confidence_ok: "\<exists>c. build_confidence doc = Inr c"
  by (cases "vision doc"; cases "search doc"; cases "price doc")
     (simp_all add: build_confidence_def and_then_def get_prop_def optchain_def)

lemma toAnalyzeResponse_never_raises:
  "\<exists>resp. toAnalyzeResponse doc = Inr resp
          \<and> resp_classification resp = derive_classification doc"
proof -
  obtain pr where pr: "build_price doc = Inr pr" using build_price_ok by blast
  obtain c where c: "build_confidence doc = Inr c" using build_confidence_ok by blast
  show ?thesis by (simp add: toAnalyzeResponse_def pr c and_then_def)
qed

text \<open>The orchestrator's loop over the three stages, unrolled.\<close>

lemma run_cases:
  "run bk req =
     (let r1 = vision_stage bk (req, []) in
      if decision r1 = Continue then
        (let r2 = search_stage bk (req, [r1]) in
         if decision r2 = Continue then [r1, r2, price_stage bk (req, [r1, r2])]
         else [r1, r2])
      else [r1])"
  by (simp add: run_def Let_def price_stage_def)

lemmas stage_defs = vision_stage_def search_stage_def price_stage_def
lemmas record_defs = toRecord_def termination_point_of_def last_reason_def
lemmas sample_defs = sample_backends_def sample_vision_def sample_search_def sample_price_def
lemmas reconstruction_defs = toAnalyzeResponse_def build_price_def build_confidence_def
  and_then_def get_prop_def optchain_def derive_classification_def

lemma run_record_agrees:
  assumes "last_reason (run bk req) \<noteq> Some R_price_failed"
  shows "\<exists>doc. toRecord ident (run bk req) = Some doc
           \<and> derive_classification doc = classify (run bk req)
           \<and> spec_priority_rule doc = classify (run bk req)
           \<and> termination_point_of (run bk req) = Some (termination_point doc)"
proof (cases "v_category_type (classifyImage bk req)")
  case Cat_processable
  show ?thesis
  proof (cases "s_classification (classifyMarket bk req [vision_stage bk (req, [])])")
    case S_mass_product
    with Cat_processable assms show ?thesis
      by (simp add: run_cases stage_defs record_defs Let_def derive_classification_def
          classify_def spec_priority_rule_def optchain_def price_succeeded_def split: if_splits)
  next
    case S_unique_item
    with Cat_processable show ?thesis
      by (simp add: run_cases stage_defs record_defs Let_def derive_classification_def
          classify_def spec_priority_rule_def optchain_def)
  qed
next
  case Cat_unknown
  then show ?thesis
    by (simp add: run_cases stage_defs record_defs Let_def derive_classification_def
        classify_def spec_priority_rule_def)
next
  case Cat_prohibited
  then show ?thesis
    by (simp add: run_cases stage_defs record_defs Let_def derive_classification_def
        classify_def spec_priority_rule_def)
qed

text \<open>
  Claim C1, as stated, fails. When vision and search continue and the price lookup
  fails, the run ends with reason \<open>price_failed\<close> and the priority rule classifies it
  \<open>unknown\<close>; the document stored for that run is reconstructed by
  \<^verbatim>\<open>toAnalyzeResponse\<close> as \<open>mass_product\<close>. No function of the client reads the
  status of a stored price result: the list view shows the same document with its
  price label.
\<close>

theorem roundtrip_price_failed_counterexample:
  "toRecord ''a1'' (run (sample_backends St_error) ()) = Some price_failed_doc
   \<and> classify (run (sample_backends St_error) ()) = unknown
   \<and> spec_priority_rule price_failed_doc = unknown
   \<and> map_sum id resp_classification (toAnalyzeResponse price_failed_doc) = Inr mass_product
   \<and> getPriceDisplay price_failed_doc = Label_price 12000"
  by (simp add: run_cases stage_defs sample_defs record_defs price_failed_doc_def
      reconstruction_defs classify_def price_succeeded_def spec_priority_rule_def
      getPriceDisplay_def)

text \<open>
  Claim C1, amended: for every run of the pipeline that does not end with reason
  \<open>price_failed\<close>, the document stored for the run is reconstructed without an
  exception, and the Classification of the reconstructed response is the one the
  priority rule of section 4.2 gives, both over the run's StageResult sequence and read
  over the stored document. The reconstructed response has no TerminationPoint field;
  the document keeps the run's terminal reason in \<^verbatim>\<open>termination_point\<close>.
\<close>

theorem toAnalyzeResponse_roundtrip_unless_price_failed:
  assumes "last_reason (run bk req) \<noteq> Some R_price_failed"
  shows "\<exists>doc resp. toRecord ident (run bk req) = Some doc
           \<and> toAnalyzeResponse doc = Inr resp
           \<and> resp_classification resp = classify (run bk req)
           \<and> resp_classification resp = spec_priority_rule doc
           \<and> termination_point_of (run bk req) = Some (termination_point doc)"
proof -
  obtain doc where doc: "toRecord ident (run bk req) = Some doc"
      "derive_classification doc = classify (run bk req)"
      "spec_priority_rule doc = classify (run bk req)"
      "termination_point_of (run bk req) = Some (termination_point doc)"
    using run_record_agrees [OF assms] by blast
  obtain resp where resp: "toAnalyzeResponse doc = Inr resp"
      "resp_classification resp = derive_classification doc"
    using toAnalyzeResponse_never_raises by blast
  from doc resp show ?thesis by simp
qed

text \<open>Claim C1, witness: scenario B, where the price lookup succeeds.\<close>

theorem toAnalyzeResponse_roundtrip_witness:
  "last_reason (run (sample_backends St_complete) ()) \<noteq> Some R_price_failed
   \<and> (\<exists>doc resp. toRecord ''a1'' (run (sample_backends St_complete) ()) = Some doc
           \<and> toAnalyzeResponse doc = Inr resp
           \<and> resp_classification resp = mass_product
           \<and> classify (run (sample_backends St_complete) ()) = mass_product
           \<and> termination_point doc = price_complete)"
proof -
  have h: "last_reason (run (sample_backends St_complete) ()) \<noteq> Some R_price_failed"
    by (simp add: run_cases stage_defs sample_defs last_reason_def)
  have c: "classify (run (sample_backends St_complete) ()) = mass_product"
    by (simp add: run_cases stage_defs sample_defs last_reason_def classify_def
        price_succeeded_def)
  have t: "termination_point_of (run (sample_backends St_complete) ()) = Some price_complete"
    by (simp add: run_cases stage_defs sample_defs last_reason_def termination_point_of_def)
  from toAnalyzeResponse_roundtrip_unless_price_failed [OF h, of "''a1''"] h c t
  show ?thesis by auto
qed

text \<open>
  Claim C2: what the code does with a document that was not ended by vision and whose
  search result, if any, is not \<open>unique_item\<close>. Reading the document never raises, as
  the claim says; but whether or not it holds a successful price result, the
  Classification of the response is \<open>mass_product\<close>, not \<open>unknown\<close>.
\<close>

theorem toAnalyzeResponse_unpriced_is_mass_product:
  assumes "termination_point doc \<noteq> vision_prohibited"
    and "termination_point doc \<noteq> vision_unknown"
    and "optchain (search doc) s_classification \<noteq> Some S_unique_item"
  shows "\<exists>resp. toAnalyzeResponse doc = Inr resp \<and> resp_classification resp = mass_product"
proof -
  obtain resp where resp: "toAnalyzeResponse doc = Inr resp"
      "resp_classification resp = derive_classification doc"
    using toAnalyzeResponse_never_raises by blast
  moreover have "derive_classification doc = mass_product"
    using assms by (simp add: derive_classification_def)
  ultimately show ?thesis by simp
qed

text \<open>
  Claim C2, at a document that ended with \<^verbatim>\<open>price_error\<close> and holds no price result:
  the detail view reconstructs \<open>mass_product\<close>, where the priority rule gives
  \<open>unknown\<close> and the list view of the same document shows its "cannot be appraised"
  label.
\<close>

theorem toAnalyzeResponse_unpriced_witness:
  "termination_point price_missing_doc = price_error
   \<and> price price_missing_doc = None
   \<and> optchain (search price_missing_doc) s_classification = Some S_mass_product
   \<and> (\<exists>resp. toAnalyzeResponse price_missing_doc = Inr resp
         \<and> resp_classification resp = mass_product)
   \<and> spec_priority_rule price_missing_doc = unknown
   \<and> getPriceDisplay price_missing_doc = Label_cannot_appraise"
proof -
  have a: "termination_point price_missing_doc = price_error"
    and b: "price price_missing_doc = None"
    and c: "optchain (search price_missing_doc) s_classification = Some S_mass_product"
    by (simp_all add: price_missing_doc_def optchain_def sample_defs)
  have d: "spec_priority_rule price_missing_doc = unknown"
    by (simp add: spec_priority_rule_def price_missing_doc_def optchain_def)
  have e: "getPriceDisplay price_missing_doc = Label_cannot_appraise"
    by (simp add: getPriceDisplay_def price_missing_doc_def optchain_def sample_defs)
  from toAnalyzeResponse_unpriced_is_mass_product [of price_missing_doc] a c
  have "\<exists>resp. toAnalyzeResponse price_missing_doc = Inr resp
         \<and> resp_classification resp = mass_product"
    by simp
  with a b c d e show ?thesis by simp
qed

section \<open>The pipeline: properties\<close>

text \<open>
  Claim C6: every run of the pipeline yields one, two or three StageResults, in the
  order vision, search, price with no gap; every result but the last decided
  \<open>continue\<close> and the last decided \<open>terminate\<close>, so no stage ran after the terminal
  decision. The document stored for the run holds a vision result; it holds a search
  result exactly when a second stage ran, and then vision had continued; it holds a
  price result exactly when a third stage ran, and then a search result exists and
  search had continued.
\<close>

theorem run_follows_fixed_stage_order:
  "length (run bk req) \<in> {1, 2, 3}
   \<and> map stage (run bk req) = take (length (run bk req)) [Stage_vision, Stage_search, Stage_price]
   \<and> list_all (\<lambda>r. decision r = Continue) (butlast (run bk req))
   \<and> decision (last (run bk req)) = Terminate
   \<and> (\<exists>doc. toRecord ident (run bk req) = Some doc
        \<and> vision doc \<noteq> None
        \<and> (search doc \<noteq> None \<longleftrightarrow> 2 \<le> length (run bk req))
        \<and> (price doc \<noteq> None \<longleftrightarrow> 3 \<le> length (run bk req))
        \<and> (search doc \<noteq> None \<longrightarrow> decision (hd (run bk req)) = Continue)
        \<and> (price doc \<noteq> None \<longrightarrow> search doc \<noteq> None \<and> decision (run bk req ! 1) = Continue))"
proof (cases "v_category_type (classifyImage bk req)")
  case Cat_processable
  show ?thesis
  proof (cases "s_classification (classifyMarket bk req [vision_stage bk (req, [])])")
    case S_mass_product
    with Cat_processable show ?thesis
      by (simp add: run_cases stage_defs record_defs Let_def)
  next
    case S_unique_item
    with Cat_processable show ?thesis
      by (simp add: run_cases stage_defs record_defs Let_def)
  qed
next
  case Cat_unknown
  then show ?thesis
    by (simp add: run_cases stage_defs record_defs Let_def)
next
  case Cat_prohibited
  then show ?thesis
    by (simp add: run_cases stage_defs record_defs Let_def)
qed

text \<open>Claim C6, witness: scenario B runs all three stages.\<close>

theorem run_follows_fixed_stage_order_witness:
  "length (run (sample_backends St_complete) ()) = 3
   \<and> map stage (run (sample_backends St_complete) ()) = [Stage_vision, Stage_search, Stage_price]
   \<and> (\<exists>doc. toRecord ''a1'' (run (sample_backends St_complete) ()) = Some doc
        \<and> vision doc \<noteq> None \<and> search doc \<noteq> None \<and> price doc \<noteq> None
        \<and> decision (hd (run (sample_backends St_complete) ())) = Continue
        \<and> decision (run (sample_backends St_complete) () ! 1) = Continue)"
proof -
  have l: "length (run (sample_backends St_complete) ()) = 3"
    by (simp add: run_cases stage_defs sample_defs)
  from run_follows_fixed_stage_order [of "sample_backends St_complete" "()" "''a1''"] l
  show ?thesis by auto
qed

section \<open>Streaming client: properties\<close>

subsection \<open>Splitting into lines does not depend on the chunks\<close>

lemma split_nl_nonempty: "split_nl s \<noteq> []"
  by (induction s) (auto split: list.splits)

lemma split_nl_no_newline: "newline \<notin> set s \<Longrightarrow> split_nl s = [s]"
  by (induction s) auto

lemma last_split_nl_no_newline: "newline \<notin> set (last (split_nl s))"
proof (induction s)
  case Nil
  show ?case by simp
next
  case (Cons c s)
  obtain l ls where ls: "split_nl s = l # ls"
    using split_nl_nonempty by (cases "split_nl s") auto
  show ?case
  proof (cases "c = newline")
    case True
    with Cons show ?thesis by (simp add: split_nl_nonempty)
  next
    case False
    with Cons ls show ?thesis by (cases ls) auto
  qed
qed

lemma split_nl_append:
  "split_nl (a @ b) = butlast (split_nl a) @ split_nl (last (split_nl a) @ b)"
proof (induction a)
  case Nil
  show ?case by simp
next
  case (Cons c a)
  obtain l ls where ls: "split_nl a = l # ls"
    using split_nl_nonempty by (cases "split_nl a") auto
  show ?case
  proof (cases "c = newline")
    case True
    with Cons show ?thesis by (simp add: split_nl_nonempty)
  next
    case False
    show ?thesis
    proof (cases ls)
      case Nil
      have a: "split_nl (a @ b) = split_nl (l @ b)" using Cons.IH ls Nil by simp
      have b: "split_nl (c # a) = [c # l]" using False ls Nil by simp
      have "split_nl ((c # a) @ b) = split_nl ((c # l) @ b)"
        using False a by simp
      then show ?thesis using b by simp
    next
      case (Cons l' ls')
      have a: "split_nl (a @ b) = (l # butlast ls) @ split_nl (last ls @ b)"
        using Cons.IH ls Cons by simp
      have b: "split_nl (c # a) = (c # l) # ls" using False ls by simp
      have "split_nl ((c # a) @ b) = ((c # l) # butlast ls) @ split_nl (last ls @ b)"
        using False a by simp
      then show ?thesis using b Cons by simp
    qed
  qed
qed

text \<open>
  The loop processes exactly the complete lines of the concatenated chunks and leaves
  the unterminated last line in the buffer, however the text is cut into chunks.
\<close>

lemma read_loop_whole:
  "newline \<notin> set buffer \<Longrightarrow>
   read_loop p chunks buffer =
     (concat (map (process_line p) (butlast (split_nl (buffer @ concat chunks)))),
      last (split_nl (buffer @ concat chunks)))"
proof (induction chunks arbitrary: buffer)
  case Nil
  then show ?case by (simp add: split_nl_no_newline)
next
  case (Cons c cs)
  let ?ls = "split_nl (buffer @ c)"
  have nl: "newline \<notin> set (last ?ls)" by (rule last_split_nl_no_newline)
  have sp: "split_nl (buffer @ c @ concat cs) = butlast ?ls @ split_nl (last ?ls @ concat cs)"
    using split_nl_append [of "buffer @ c" "concat cs"] by simp
  have ne: "split_nl (last ?ls @ concat cs) \<noteq> []" by (rule split_nl_nonempty)
  show ?case
    by (simp add: Let_def Cons.IH [OF nl] sp butlast_append ne)
qed



lemma flush_buffer_eq: "flush_buffer p b = process_line p b"
  by (simp add: flush_buffer_def process_line_def Let_def)

lemma process_line_events: "process_line p l = concat (map dispatch (line_events p l))"
  by (simp add: process_line_def line_events_def Let_def)

lemma concat_process_lines:
  "concat (map (process_line p) ls) = concat (map dispatch (concat (map (line_events p) ls)))"
  by (induction ls) (simp_all add: process_line_events)

lemma stream_done:
  "createAnalysisStream p (Response True ed (Body chunks Done)) =
     concat (map dispatch (stream_events p (concat chunks)))"
proof -
  let ?ls = "split_nl (concat chunks)"
  have ne: "?ls \<noteq> []" by (rule split_nl_nonempty)
  have "createAnalysisStream p (Response True ed (Body chunks Done)) =
        concat (map (process_line p) (butlast ?ls)) @ process_line p (last ?ls)"
    using read_loop_whole [of "[]" p chunks]
    by (simp add: createAnalysisStream_def Let_def flush_buffer_eq)
  also have "\<dots> = concat (map (process_line p) (butlast ?ls @ [last ?ls]))" by simp
  also have "\<dots> = concat (map (process_line p) ?ls)" using ne by simp
  finally show ?thesis by (simp add: concat_process_lines stream_events_def)
qed

lemma stream_rejected:
  "createAnalysisStream p (Response True ed (Body chunks (Read_rejects e))) =
     concat (map dispatch (complete_line_events p (concat chunks))) @ catch_block e"
  using read_loop_whole [of "[]" p chunks]
  by (simp add: createAnalysisStream_def Let_def concat_process_lines complete_line_events_def)

lemma complete_line_events_prefix:
  "prefix (complete_line_events p txt) (stream_events p txt)"
proof -
  let ?ls = "split_nl txt"
  have "concat (map (line_events p) ?ls) =
        concat (map (line_events p) (butlast ?ls @ [last ?ls]))"
    using split_nl_nonempty [of "txt"] by simp
  also have "\<dots> = concat (map (line_events p) (butlast ?ls)) @ line_events p (last ?ls)"
    by simp
  finally have "stream_events p txt =
      complete_line_events p txt @ line_events p (last ?ls)"
    by (simp add: stream_events_def complete_line_events_def)
  then show ?thesis by (simp add: prefix_def)
qed

subsection \<open>Calls and events\<close>

lemma thinking_payloads_append:
  "thinking_payloads (xs @ ys) = thinking_payloads xs @ thinking_payloads ys"
  by (induction xs rule: thinking_payloads.induct) simp_all

lemma thinking_payloads_dispatch:
  "thinking_payloads (concat (map dispatch evs)) = filter is_thinking_event evs"
  by (induction evs)
     (auto simp: thinking_payloads_append dispatch_def is_thinking_event_def
        is_terminal_event_def is_node_complete_def event_type_def)

lemma thinking_payloads_catch: "thinking_payloads (catch_block e) = []"
  by (simp add: catch_block_def)

lemma terminal_calls_dispatch:
  "filter is_terminal_call (concat (map dispatch evs)) =
     concat (map dispatch (filter is_terminal_event evs))"
  by (induction evs) (auto simp: dispatch_def is_terminal_event_def event_type_def)

lemma length_dispatch_terminal:
  "length (concat (map dispatch (filter is_terminal_event evs))) =
     length (filter is_terminal_event evs)"
  by (induction evs) (auto simp: dispatch_def is_terminal_event_def event_type_def)

lemma complete_calls_dispatch:
  "length (filter is_complete_call (concat (map dispatch evs)))
     = length (filter (\<lambda>e. event_type e = Some (JStr ''complete'')) evs)"
  by (induction evs) (auto simp: dispatch_def event_type_def)

lemma terminal_calls_catch:
  "filter is_terminal_call (catch_block e) = catch_block e"
  "length (catch_block e) = (if is_abort e then 0 else 1)"
  by (simp_all add: catch_block_def)

lemmas sse_defs = process_line_def parseSSELine_def trim_def is_space_def starts_with_def
  dispatch_def newline_def sse_frame_def line_events_def stream_events_def
lemmas sample_sse_defs = sample_parse_def txt_thinking_def txt_node_complete_def txt_complete_def
  txt_error_def ev_thinking_def ev_node_complete_def ev_complete_def ev_error_def
lemmas stream_eval_defs = createAnalysisStream_def flush_buffer_def catch_block_def
  network_error_def Let_def sse_defs sample_sse_defs

text \<open>
  Claim C3, as stated, fails. The client keeps reading after a terminal event: a
  \<^verbatim>\<open>complete\<close> event followed by a failed read gives \<^verbatim>\<open>onComplete\<close> and then
  \<^verbatim>\<open>onError\<close>, and so does a \<^verbatim>\<open>complete\<close> event followed by an \<^verbatim>\<open>error\<close> event.
\<close>

theorem terminal_callbacks_counterexample:
  "createAnalysisStream sample_parse
     (Response True None (Body [sse_frame txt_complete] (Read_rejects network_error)))
     = [OnComplete (Some (JStr ''r'')), OnError network_error]
   \<and> createAnalysisStream sample_parse
     (Response True None (Body [sse_frame txt_complete @ sse_frame txt_error] Done))
     = [OnComplete (Some (JStr ''r'')), OnError (Err ''Error'' (Some (JStr ''boom'')))]"
  by (simp add: stream_eval_defs)

text \<open>
  Claim C3, amended: the client makes one terminal call for each terminal event it
  reads (\<^verbatim>\<open>onComplete\<close> for each \<^verbatim>\<open>complete\<close> event, \<^verbatim>\<open>onError\<close> for each \<^verbatim>\<open>error\<close>
  event) and one more \<^verbatim>\<open>onError\<close> when the request or a read fails with anything but
  an AbortError. So for a stream read to its end the number of terminal calls is the
  number of terminal events of the stream: exactly one when the stream holds exactly
  one. A rejected fetch, a response that is not ok and a response without a body each
  give a single \<^verbatim>\<open>onError\<close> (none for an aborted fetch).
\<close>

theorem terminal_callbacks_mirror_terminal_events:
  "length (filter is_terminal_call (createAnalysisStream p (Response True ed (Body chunks Done))))
     = length (filter is_terminal_event (stream_events p (concat chunks)))
   \<and> length (filter is_complete_call (createAnalysisStream p (Response True ed (Body chunks Done))))
     = length (filter (\<lambda>e. event_type e = Some (JStr ''complete''))
                 (stream_events p (concat chunks)))
   \<and> length (filter is_terminal_call
        (createAnalysisStream p (Response True ed (Body chunks (Read_rejects e)))))
     = length (filter is_terminal_event (complete_line_events p (concat chunks)))
       + (if is_abort e then 0 else 1)
   \<and> length (filter is_terminal_call (createAnalysisStream p (Fetch_rejects e)))
     = (if is_abort e then 0 else 1)
   \<and> filter is_terminal_call (createAnalysisStream p (Response False ed body))
     = [OnError (Err ''Error'' (Some (error_message ed)))]
   \<and> filter is_terminal_call (createAnalysisStream p (Response True ed No_body))
     = [OnError (Err ''Error'' (Some (JStr ''No response body'')))]"
  by (simp add: stream_done stream_rejected terminal_calls_dispatch length_dispatch_terminal
      terminal_calls_catch complete_calls_dispatch)
     (simp add: createAnalysisStream_def catch_block_def)

text \<open>
  Claim C4, as stated, fails in its second half. The line \<^verbatim>\<open>data: null\<close> starts with
  the prefix and is followed by valid JSON other than \<^verbatim>\<open>[DONE]\<close>, but
  \<^verbatim>\<open>parseSSELine\<close> returns \<^verbatim>\<open>null\<close> for it and no event is delivered.
\<close>

theorem parse_null_counterexample:
  "starts_with ''data: null'' ''data: ''
   \<and> sample_parse (drop 6 ''data: null'') = Some JNull
   \<and> drop 6 ''data: null'' \<noteq> ''[DONE]''
   \<and> parseSSELine sample_parse ''data: null'' = JNull
   \<and> stream_events sample_parse (''data: null'' @ [newline]) = []
   \<and> createAnalysisStream sample_parse
        (Response True None (Body [''data: null'' @ [newline]] Done)) = []"
  by (simp add: stream_eval_defs)

text \<open>
  Claim C4, amended: the events handed to \<^verbatim>\<open>onThinking\<close> are, in order and with
  nothing repeated or dropped, the events of the stream whose type is neither
  \<^verbatim>\<open>complete\<close>, \<^verbatim>\<open>error\<close> nor \<^verbatim>\<open>node_complete\<close> (those of the complete lines when a
  read is rejected); in particular they are a subsequence of the events of the stream,
  however the text arrives in chunks. A trimmed line yields a value other than
  \<^verbatim>\<open>null\<close> if and only if it starts with \<^verbatim>\<open>data: \<close> and the rest is not empty, is not
  \<^verbatim>\<open>[DONE]\<close>, and is JSON text whose value is not \<^verbatim>\<open>null\<close>; the events of the stream
  are the truthy values so obtained from its non-blank lines.
\<close>

theorem thinking_events_in_stream_order:
  "thinking_payloads (createAnalysisStream p (Response True ed (Body chunks Done)))
     = filter is_thinking_event (stream_events p (concat chunks))
   \<and> thinking_payloads (createAnalysisStream p (Response True ed (Body chunks (Read_rejects e))))
     = filter is_thinking_event (complete_line_events p (concat chunks))
   \<and> subseq (thinking_payloads (createAnalysisStream p (Response True ed (Body chunks ending))))
        (stream_events p (concat chunks))
   \<and> (parseSSELine p line \<noteq> JNull \<longleftrightarrow>
        starts_with line ''data: '' \<and> drop 6 line \<noteq> [] \<and> drop 6 line \<noteq> ''[DONE]''
        \<and> (\<exists>v. p (drop 6 line) = Some v \<and> v \<noteq> JNull))
   \<and> stream_events p (concat chunks)
     = filter truthy (map (\<lambda>l. parseSSELine p (trim l))
         (filter (\<lambda>l. trim l \<noteq> []) (split_nl (concat chunks))))"
proof -
  have a: "thinking_payloads (createAnalysisStream p (Response True ed (Body chunks Done)))
     = filter is_thinking_event (stream_events p (concat chunks))"
    by (simp add: stream_done thinking_payloads_dispatch)
  have b: "thinking_payloads (createAnalysisStream p (Response True ed (Body chunks (Read_rejects e))))
     = filter is_thinking_event (complete_line_events p (concat chunks))" for e
    by (simp add: stream_rejected thinking_payloads_append thinking_payloads_dispatch
        thinking_payloads_catch)
  have c: "subseq (thinking_payloads (createAnalysisStream p (Response True ed (Body chunks ending))))
        (stream_events p (concat chunks))"
  proof (cases ending)
    case Done
    then show ?thesis by (simp add: a)
  next
    case (Read_rejects e')
    have "subseq (filter is_thinking_event (complete_line_events p (concat chunks)))
            (complete_line_events p (concat chunks))" by simp
    moreover have "subseq (complete_line_events p (concat chunks)) (stream_events p (concat chunks))"
      using complete_line_events_prefix by (rule prefix_imp_subseq)
    ultimately show ?thesis using Read_rejects b by (metis subseq_order.order_trans)
  qed
  have d: "parseSSELine p line \<noteq> JNull \<longleftrightarrow>
        starts_with line ''data: '' \<and> drop 6 line \<noteq> [] \<and> drop 6 line \<noteq> ''[DONE]''
        \<and> (\<exists>v. p (drop 6 line) = Some v \<and> v \<noteq> JNull)"
    by (auto simp: parseSSELine_def Let_def split: option.splits)
  have e: "concat (map (line_events p) ls)
     = filter truthy (map (\<lambda>l. parseSSELine p (trim l)) (filter (\<lambda>l. trim l \<noteq> []) ls))" for ls
    by (induction ls) (simp_all add: line_events_def)
  show ?thesis using a b c d e by (simp add: stream_events_def)
qed



text \<open>
  Claim C8: an event of type \<^verbatim>\<open>node_complete\<close> causes no call. The calls made for a
  stream are those made for the stream with its \<^verbatim>\<open>node_complete\<close> events removed, and
  no request, whatever the network does, hands a \<^verbatim>\<open>node_complete\<close> event to
  \<^verbatim>\<open>onThinking\<close>. Events of type \<^verbatim>\<open>thinking\<close>, \<^verbatim>\<open>node_start\<close> and \<^verbatim>\<open>progress\<close> go to
  \<^verbatim>\<open>onThinking\<close> unchanged, and an event of type \<^verbatim>\<open>error\<close> goes to \<^verbatim>\<open>onError\<close> as an
  Error made from its message.
\<close>

theorem node_complete_is_discarded:
  "(is_node_complete event \<longrightarrow> dispatch event = [])
   \<and> createAnalysisStream p (Response True ed (Body chunks Done))
     = concat (map dispatch (filter (\<lambda>e. \<not> is_node_complete e) (stream_events p (concat chunks))))
   \<and> (\<forall>e. OnThinking e \<in> set (createAnalysisStream p net) \<longrightarrow> \<not> is_node_complete e)
   \<and> (event_type event \<in> {Some (JStr ''thinking''), Some (JStr ''node_start''),
                            Some (JStr ''progress'')}
        \<longrightarrow> dispatch event = [OnThinking event])
   \<and> (event_type event = Some (JStr ''error'')
        \<longrightarrow> dispatch event = [OnError (Err ''Error'' (field event ''message''))])"
proof -
  have a: "is_node_complete ev \<Longrightarrow> dispatch ev = []" for ev
    by (simp add: is_node_complete_def event_type_def dispatch_def)
  have b: "concat (map dispatch evs)
      = concat (map dispatch (filter (\<lambda>e. \<not> is_node_complete e) evs))" for evs
    by (induction evs) (simp_all add: a)
  have disp: "OnThinking e \<in> set (concat (map dispatch evs)) \<Longrightarrow> \<not> is_node_complete e" for e evs
    by (induction evs) (auto simp: dispatch_def is_node_complete_def event_type_def split: if_splits)
  have fl: "OnThinking e \<in> set (flush_buffer p b) \<Longrightarrow> \<not> is_node_complete e" for e b
    using disp [of e "line_events p b"] by (simp add: flush_buffer_eq process_line_events)
  have rl: "OnThinking e \<in> set (fst (read_loop p cs b)) \<Longrightarrow> \<not> is_node_complete e" for e cs b
  proof (induction cs arbitrary: b)
    case Nil
    then show ?case by simp
  next
    case (Cons c cs)
    then show ?case
      using disp [of e "concat (map (line_events p) (butlast (split_nl (b @ c))))"]
      by (auto simp: Let_def concat_process_lines)
  qed
  have c: "OnThinking e \<in> set (createAnalysisStream p net) \<Longrightarrow> \<not> is_node_complete e" for e
    by (auto simp: createAnalysisStream_def catch_block_def Let_def
        split: fetch_result.splits response_body.splits read_end.splits if_splits
        dest: fl rl)
  have d: "event_type event \<in> {Some (JStr ''thinking''), Some (JStr ''node_start''),
                            Some (JStr ''progress'')}
        \<Longrightarrow> dispatch event = [OnThinking event]"
    by (auto simp: dispatch_def event_type_def)
  have e: "event_type event = Some (JStr ''error'')
        \<Longrightarrow> dispatch event = [OnError (Err ''Error'' (field event ''message''))]"
    by (simp add: dispatch_def event_type_def)
  show ?thesis using a b [of "stream_events p (concat chunks)"] c d e
    by (simp add: stream_done)
qed

text \<open>
  Claim C8, witness: a stream of a \<^verbatim>\<open>thinking\<close>, a \<^verbatim>\<open>node_complete\<close> and a
  \<^verbatim>\<open>complete\<close> event, cut into two chunks.
\<close>

theorem node_complete_is_discarded_witness:
  "is_node_complete ev_node_complete \<and> dispatch ev_node_complete = []
   \<and> createAnalysisStream sample_parse
        (Response True None
           (Body [sse_frame txt_thinking @ sse_frame txt_node_complete, sse_frame txt_complete] Done))
      = [OnThinking ev_thinking, OnComplete (Some (JStr ''r''))]
   \<and> event_type ev_thinking = Some (JStr ''thinking'')
   \<and> dispatch ev_thinking = [OnThinking ev_thinking]
   \<and> event_type ev_error = Some (JStr ''error'')
   \<and> dispatch ev_error = [OnError (Err ''Error'' (Some (JStr ''boom'')))]"
proof -
  have n: "is_node_complete ev_node_complete"
    by (simp add: is_node_complete_def event_type_def ev_node_complete_def)
  have t: "event_type ev_thinking = Some (JStr ''thinking'')"
    by (simp add: event_type_def ev_thinking_def)
  have e: "event_type ev_error = Some (JStr ''error'')"
    by (simp add: event_type_def ev_error_def)
  have m: "field ev_error ''message'' = Some (JStr ''boom'')"
    by (simp add: ev_error_def)
  have s: "createAnalysisStream sample_parse
        (Response True None
           (Body [sse_frame txt_thinking @ sse_frame txt_node_complete, sse_frame txt_complete] Done))
      = [OnThinking ev_thinking, OnComplete (Some (JStr ''r''))]"
    by (simp add: stream_eval_defs)
  from node_complete_is_discarded [of ev_node_complete sample_parse None "[]"] n
  have 1: "dispatch ev_node_complete = []" by blast
  from node_complete_is_discarded [of ev_thinking sample_parse None "[]"] t
  have 2: "dispatch ev_thinking = [OnThinking ev_thinking]" by simp
  from node_complete_is_discarded [of ev_error sample_parse None "[]"] e m
  have 3: "dispatch ev_error = [OnError (Err ''Error'' (Some (JStr ''boom'')))]" by simp
  from n t e s 1 2 3 show ?thesis by simp
qed

section \<open>Image picker: properties\<close>

text \<open>
  Claim C9: \<^verbatim>\<open>onImageSelect\<close> is called only for a file whose type is one of
  image/jpeg, image/png and image/webp and whose size is at most 10485760 bytes. For a
  file that fails either check \<^verbatim>\<open>processFile\<close> sets an error message (the format
  message for a wrong type, the size message for a valid type that is too large), calls
  \<^verbatim>\<open>onImageSelect\<close> not at all and leaves the preview alone. A file that passes both is
  handed to \<^verbatim>\<open>onImageSelect\<close> when the reader loads it.
\<close>

theorem processFile_validates_before_select:
  "(snd (processFile file reader s) \<noteq> [] \<longrightarrow>
      file_type file \<in> {''image/jpeg'', ''image/png'', ''image/webp''}
      \<and> file_size file \<le> 10485760)
   \<and> (file_type file \<notin> {''image/jpeg'', ''image/png'', ''image/webp''}
        \<or> file_size file > 10485760 \<longrightarrow>
      ip_error (fst (processFile file reader s)) \<noteq> None
      \<and> snd (processFile file reader s) = []
      \<and> ip_preview (fst (processFile file reader s)) = ip_preview s)
   \<and> (file_type file \<notin> {''image/jpeg'', ''image/png'', ''image/webp''} \<longrightarrow>
      ip_error (fst (processFile file reader s)) = Some Msg_select_jpeg_png_webp)
   \<and> (file_type file \<in> {''image/jpeg'', ''image/png'', ''image/webp''}
        \<and> file_size file > 10485760 \<longrightarrow>
      ip_error (fst (processFile file reader s)) = Some Msg_at_most_10MB)
   \<and> (file_type file \<in> {''image/jpeg'', ''image/png'', ''image/webp''}
        \<and> file_size file \<le> 10485760 \<longrightarrow>
      snd (processFile file reader s) = (case reader of Loaded b \<Rightarrow> [b] | Read_failed \<Rightarrow> []))"
proof -
  have v: "set VALID_TYPES = {''image/jpeg'', ''image/png'', ''image/webp''}"
    by (simp add: VALID_TYPES_def)
  have m: "MAX_SIZE = 10485760" by (simp add: MAX_SIZE_def)
  show ?thesis
    unfolding processFile_def Let_def v m
    by (cases reader) (simp_all add: not_less)
qed

text \<open>
  Claim C9, witness: a PNG of exactly 10485760 bytes is selected, a PNG one byte
  larger and a small GIF are refused.
\<close>

theorem processFile_validates_witness:
  "processFile png_10MB (Loaded ''data:image/png;base64,AAAA'') picker_initial
     = (\<lparr>ip_preview = Some ''data:image/png;base64,AAAA'', ip_error = None\<rparr>,
        [''data:image/png;base64,AAAA''])
   \<and> file_type png_10MB \<in> {''image/jpeg'', ''image/png'', ''image/webp''}
   \<and> file_size png_10MB \<le> 10485760
   \<and> file_size png_too_large > 10485760
   \<and> ip_error (fst (processFile png_too_large (Loaded ''x'') picker_initial))
     = Some Msg_at_most_10MB
   \<and> snd (processFile png_too_large (Loaded ''x'') picker_initial) = []
   \<and> file_type gif_small \<notin> {''image/jpeg'', ''image/png'', ''image/webp''}
   \<and> ip_error (fst (processFile gif_small (Loaded ''x'') picker_initial))
     = Some Msg_select_jpeg_png_webp
   \<and> snd (processFile gif_small (Loaded ''x'') picker_initial) = []"
proof -
  note defs = processFile_def png_10MB_def picker_initial_def VALID_TYPES_def MAX_SIZE_def
  have a: "snd (processFile png_10MB (Loaded ''data:image/png;base64,AAAA'') picker_initial) \<noteq> []"
    by (simp add: defs)
  have b: "processFile png_10MB (Loaded ''data:image/png;base64,AAAA'') picker_initial
     = (\<lparr>ip_preview = Some ''data:image/png;base64,AAAA'', ip_error = None\<rparr>,
        [''data:image/png;base64,AAAA''])"
    by (simp add: defs)
  have c: "file_size png_too_large > 10485760" by (simp add: png_too_large_def)
  have c': "file_type png_too_large \<in> {''image/jpeg'', ''image/png'', ''image/webp''}"
    by (simp add: png_too_large_def)
  have d: "file_type gif_small \<notin> {''image/jpeg'', ''image/png'', ''image/webp''}"
    by (simp add: gif_small_def)
  note t1 = processFile_validates_before_select
      [of png_10MB "Loaded ''data:image/png;base64,AAAA''" picker_initial]
  note t2 = processFile_validates_before_select [of png_too_large "Loaded ''x''" picker_initial]
  note t3 = processFile_validates_before_select [of gif_small "Loaded ''x''" picker_initial]
  from t1 a have 1: "file_type png_10MB \<in> {''image/jpeg'', ''image/png'', ''image/webp''}
      \<and> file_size png_10MB \<le> 10485760" by blast
  from t2 c c' have 2:
    "ip_error (fst (processFile png_too_large (Loaded ''x'') picker_initial)) = Some Msg_at_most_10MB
      \<and> snd (processFile png_too_large (Loaded ''x'') picker_initial) = []" by blast
  from t3 d have 3:
    "ip_error (fst (processFile gif_small (Loaded ''x'') picker_initial))
        = Some Msg_select_jpeg_png_webp
      \<and> snd (processFile gif_small (Loaded ''x'') picker_initial) = []" by blast
  from b c d 1 2 3 show ?thesis by simp
qed

section \<open>Appraisal history: properties\<close>

lemma to_double_exact: "n < 2 ^ 53 \<Longrightarrow> to_double n = n"
proof -
  assume "n < 2 ^ 53"
  then have "shift_count n = 0" by (simp add: shift_count.simps [of n])
  then show ?thesis by (simp add: to_double_def)
qed

lemma js_add_exact: "a + b < 2 ^ 53 \<Longrightarrow> js_add (Num a) (Num b) = Num (a + b)"
proof -
  assume h: "a + b < 2 ^ 53"
  have "(2::nat) ^ 53 \<le> 2 ^ 1024" by (rule power_increasing) simp_all
  with h have "a + b < 2 ^ 1024" by (rule less_le_trans)
  with h show ?thesis by (simp add: to_double_exact del: power_numeral)
qed

text \<open>
  Claim C7, as stated, fails. The offset is a double: with a page size of \<open>2^53 - 1\<close>
  the hook's offsets after the first fetch and the first \<^verbatim>\<open>loadMore\<close> are exact, but
  the second \<^verbatim>\<open>loadMore\<close>, though it succeeds, advances the offset by one less than
  the limit.
\<close>

theorem offset_rounding_counterexample:
  "h_offset (fst (refresh True largest_safe_integer sample_num_text one_more_server history_initial))
     = Num 9007199254740991
   \<and> h_offset (fst (loadMore True largest_safe_integer sample_num_text one_more_server
        (fst (refresh True largest_safe_integer sample_num_text one_more_server history_initial))))
     = Num 18014398509481982
   \<and> loadMore True largest_safe_integer sample_num_text one_more_server
        (fst (loadMore True largest_safe_integer sample_num_text one_more_server
           (fst (refresh True largest_safe_integer sample_num_text one_more_server
              history_initial))))
     = (\<lparr>h_appraisals = [sample_doc ''d3'', sample_doc ''d3'', sample_doc ''d3''], h_total = 5,
         h_loading = False, h_error = None, h_offset = Num 27021597764222972\<rparr>,
        [''/api/v1/appraisals?limit=9007199254740991&offset=18014398509481982''])
   \<and> (18014398509481982::nat) + largest_safe_integer = 27021597764222973"
  by (simp add: refresh_def loadMore_def fetchHistory_def history_initial_def
      one_more_server_def largest_safe_integer_def sample_num_text_def history_endpoint_def
      to_double_def shift_count.simps Let_def)

text \<open>
  Claim C7, amended: the history is paged by limit and offset. Every fetch of a
  signed-in user requests \<^verbatim>\<open>/api/v1/appraisals\<close> with the hook's limit and the current
  offset (0 for a refresh); \<^verbatim>\<open>loadMore\<close> requests nothing while a fetch is loading or
  once the number of loaded documents has reached the total. A \<^verbatim>\<open>loadMore\<close> that the
  server answers appends the documents returned after the ones already loaded and sets
  the offset to the double nearest to offset plus limit, which is exactly offset plus
  limit whenever that sum is a safe integer (below \<open>2^53\<close>). \<^verbatim>\<open>hasMore\<close> holds
  exactly when fewer documents than the total are loaded.
\<close>

theorem history_is_paginated:
  "snd (fetchHistory user limit num_text api rf s)
     = (if user then [history_endpoint num_text limit (if rf then Num 0 else h_offset s)] else [])
   \<and> snd (refresh user limit num_text api s)
     = (if user then [history_endpoint num_text limit (Num 0)] else [])
   \<and> snd (loadMore user limit num_text api s)
     = (if user \<and> \<not> h_loading s \<and> length (h_appraisals s) < h_total s
        then [history_endpoint num_text limit (h_offset s)] else [])
   \<and> (user \<and> \<not> h_loading s \<and> length (h_appraisals s) < h_total s
        \<and> api (history_endpoint num_text limit (h_offset s)) = Inr data \<longrightarrow>
        h_offset (fst (loadMore user limit num_text api s)) = js_add (h_offset s) (Num limit)
        \<and> h_appraisals (fst (loadMore user limit num_text api s))
          = h_appraisals s @ (case hr_appraisals data of None \<Rightarrow> [] | Some l \<Rightarrow> l)
        \<and> h_total (fst (loadMore user limit num_text api s))
          = (case hr_total data of None \<Rightarrow> 0 | Some t \<Rightarrow> t)
        \<and> h_loading (fst (loadMore user limit num_text api s)) = False
        \<and> h_error (fst (loadMore user limit num_text api s)) = None)
   \<and> (user \<and> \<not> h_loading s \<and> length (h_appraisals s) < h_total s
        \<and> api (history_endpoint num_text limit (h_offset s)) = Inr data
        \<and> h_offset s = Num off \<and> off + limit < 2 ^ 53 \<longrightarrow>
        h_offset (fst (loadMore user limit num_text api s)) = Num (off + limit))
   \<and> (h_total s \<le> length (h_appraisals s) \<longrightarrow> loadMore user limit num_text api s = (s, []))
   \<and> (hasMore s \<longleftrightarrow> length (h_appraisals s) < h_total s)
   \<and> history_endpoint num_text limit offset
     = ''/api/v1/appraisals?limit='' @ num_text (Num limit) @ ''&offset='' @ num_text offset"
proof -
  have a: "snd (fetchHistory u limit num_text api rf s)
     = (if u then [history_endpoint num_text limit (if rf then Num 0 else h_offset s)] else [])"
    for u rf s
    by (simp add: fetchHistory_def Let_def split: sum.splits)
  have b: "snd (refresh user limit num_text api s)
     = (if user then [history_endpoint num_text limit (Num 0)] else [])"
    by (simp add: refresh_def a)
  have c: "snd (loadMore user limit num_text api s)
     = (if user \<and> \<not> h_loading s \<and> length (h_appraisals s) < h_total s
        then [history_endpoint num_text limit (h_offset s)] else [])"
    by (simp add: loadMore_def a not_le)
  have d: "h_offset (fst (loadMore user limit num_text api s)) = js_add (h_offset s) (Num limit)
        \<and> h_appraisals (fst (loadMore user limit num_text api s))
          = h_appraisals s @ (case hr_appraisals data of None \<Rightarrow> [] | Some l \<Rightarrow> l)
        \<and> h_total (fst (loadMore user limit num_text api s))
          = (case hr_total data of None \<Rightarrow> 0 | Some t \<Rightarrow> t)
        \<and> h_loading (fst (loadMore user limit num_text api s)) = False
        \<and> h_error (fst (loadMore user limit num_text api s)) = None"
    if "user \<and> \<not> h_loading s \<and> length (h_appraisals s) < h_total s
        \<and> api (history_endpoint num_text limit (h_offset s)) = Inr data"
    using that by (simp add: loadMore_def fetchHistory_def Let_def)
  have d': "h_offset (fst (loadMore user limit num_text api s)) = Num (off + limit)"
    if "user \<and> \<not> h_loading s \<and> length (h_appraisals s) < h_total s
        \<and> api (history_endpoint num_text limit (h_offset s)) = Inr data
        \<and> h_offset s = Num off \<and> off + limit < 2 ^ 53"
  proof -
    have o: "h_offset s = Num off" using that by blast
    have sm: "off + limit < 2 ^ 53" using that by blast
    have "h_offset (fst (loadMore user limit num_text api s)) = js_add (h_offset s) (Num limit)"
      using that d by blast
    then show ?thesis unfolding o js_add_exact [OF sm] .
  qed
  have e: "h_total s \<le> length (h_appraisals s) \<Longrightarrow> loadMore user limit num_text api s = (s, [])"
    by (simp add: loadMore_def)
  have f: "hasMore s \<longleftrightarrow> length (h_appraisals s) < h_total s"
    by (simp add: hasMore_def)
  have g: "history_endpoint num_text limit offset
     = ''/api/v1/appraisals?limit='' @ num_text (Num limit) @ ''&offset='' @ num_text offset"
    by (simp add: history_endpoint_def)
  from a b c d d' e f g show ?thesis by blast
qed

text \<open>
  Claim C7, witness: with two of three documents loaded, \<^verbatim>\<open>loadMore\<close> requests the
  page at offset 2, appends the third document and moves the offset to 4; a further
  \<^verbatim>\<open>loadMore\<close> requests nothing.
\<close>

theorem history_is_paginated_witness:
  "\<not> h_loading history_page1 \<and> length (h_appraisals history_page1) < h_total history_page1
   \<and> hasMore history_page1
   \<and> h_offset history_page1 = Num 2 \<and> (2::nat) + 2 < 2 ^ 53
   \<and> h_offset (fst (loadMore True 2 sample_num_text sample_server history_page1)) = Num (2 + 2)
   \<and> loadMore True 2 sample_num_text sample_server history_page1
     = (\<lparr>h_appraisals = [sample_doc ''d1'', sample_doc ''d2'', sample_doc ''d3''], h_total = 3,
         h_loading = False, h_error = None, h_offset = Num 4\<rparr>,
        [''/api/v1/appraisals?limit=2&offset=2''])
   \<and> \<not> hasMore (fst (loadMore True 2 sample_num_text sample_server history_page1))
   \<and> loadMore True 2 sample_num_text sample_server
        (fst (loadMore True 2 sample_num_text sample_server history_page1))
     = (fst (loadMore True 2 sample_num_text sample_server history_page1), [])"
proof -
  let ?page3 = "\<lparr>hr_appraisals = Some [sample_doc ''d3''], hr_total = Some 3\<rparr>"
  let ?s' = "fst (loadMore True 2 sample_num_text sample_server history_page1)"
  have ep: "history_endpoint sample_num_text 2 (Num 2) = ''/api/v1/appraisals?limit=2&offset=2''"
    by (simp add: history_endpoint_def sample_num_text_def)
  have four: "to_double 4 = 4" by (simp add: to_double_exact)
  have l: "loadMore True 2 sample_num_text sample_server history_page1
     = (\<lparr>h_appraisals = [sample_doc ''d1'', sample_doc ''d2'', sample_doc ''d3''], h_total = 3,
         h_loading = False, h_error = None, h_offset = Num 4\<rparr>,
        [''/api/v1/appraisals?limit=2&offset=2''])"
    by (simp add: loadMore_def fetchHistory_def history_page1_def ep sample_server_def four)
  have h: "\<not> h_loading history_page1 \<and> length (h_appraisals history_page1) < h_total history_page1"
    by (simp add: history_page1_def)
  have o: "h_offset history_page1 = Num 2" by (simp add: history_page1_def)
  have sm: "(2::nat) + 2 < 2 ^ 53" by simp
  have srv: "sample_server (history_endpoint sample_num_text 2 (h_offset history_page1)) = Inr ?page3"
    by (simp add: o ep sample_server_def)
  note t1 = history_is_paginated
      [of True 2 sample_num_text sample_server False history_page1 ?page3 2 "Num 0"]
  note t2 = history_is_paginated
      [of True 2 sample_num_text sample_server False ?s' ?page3 2 "Num 0"]
  from t1 h have 1: "hasMore history_page1" by blast
  from t1 h srv o sm have 2: "h_offset ?s' = Num (2 + 2)" by blast
  have full: "h_total ?s' \<le> length (h_appraisals ?s')"
    by (simp add: l)
  from t2 full have 3: "\<not> hasMore ?s'
      \<and> loadMore True 2 sample_num_text sample_server ?s' = (?s', [])"
    by (metis not_less)
  from h o sm l 1 2 3 show ?thesis by simp
qed

section \<open>API client: properties\<close>

lemma refresh_effects:
  "snd (refreshAuthToken env)
     = (if isFirebaseConfigured env \<and> currentUser env \<noteq> None then [GetIdToken True] else [])"
  by (simp add: refreshAuthToken_def)

lemma first_token_effects:
  "filter is_fetch (snd (first_token env options)) = []"
  "filter is_forced_refresh (snd (first_token env options)) = []"
  by (simp_all add: first_token_def getAuthToken_def is_forced_refresh_def)

lemma refresh_token_effects:
  "filter is_fetch (snd (refreshAuthToken env)) = []"
  "filter is_forced_refresh (snd (refreshAuthToken env)) = snd (refreshAuthToken env)"
  by (simp_all add: refreshAuthToken_def is_forced_refresh_def)

lemma is_forced_refresh_Fetch: "\<not> is_forced_refresh (Fetch rq)"
  by (simp add: is_forced_refresh_def)

lemmas api_eval_defs = apiRequest_def send_request_def first_request_def first_token_def
  requireAuth_of_def getAuthToken_def refreshAuthToken_def signed_out_def signed_in_def
  expiring_server_def null_body_server_def default_options_def read_response_def
  new_ApiError_def ok_def bearer_def usable_def Let_def

text \<open>
  Claim C10: what a call of \<^verbatim>\<open>apiRequest\<close> does. It fetches at most twice and forces
  a token refresh at most once. When auth is required and the first response is a 401,
  it calls \<^verbatim>\<open>refreshAuthToken\<close> (which forces a refresh when a user is signed in) and
  repeats the request once, with the new token, exactly when that yields a usable
  token. It returns a value only for a final response that is ok, and the value is that
  response's parsed body. For a final response that is not ok it throws an ApiError with
  the response's status and the body's truthy \<^verbatim>\<open>detail\<close>, or the default message when
  the body is not JSON or has no such detail; but when the body is the JSON value
  \<^verbatim>\<open>null\<close>, the constructor of ApiError reads a property of \<^verbatim>\<open>null\<close> and the call
  is rejected with a TypeError instead of an ApiError.
\<close>

theorem apiRequest_retries_once_after_401:
  "snd (apiRequest base env fetch endpoint options)
     = snd (send_request base env fetch endpoint options)
   \<and> length (filter is_fetch (snd (apiRequest base env fetch endpoint options))) \<le> 2
   \<and> length (filter is_forced_refresh (snd (apiRequest base env fetch endpoint options))) \<le> 1
   \<and> (requireAuth_of options
        \<and> fetch 0 (first_request base env endpoint options) = Responded r401
        \<and> status r401 = 401 \<longrightarrow>
        filter is_forced_refresh (snd (apiRequest base env fetch endpoint options))
          = (if isFirebaseConfigured env \<and> currentUser env \<noteq> None then [GetIdToken True] else [])
        \<and> filter is_fetch (snd (apiRequest base env fetch endpoint options))
          = (if usable (fst (refreshAuthToken env))
             then [Fetch (first_request base env endpoint options),
                   Fetch ((first_request base env endpoint options)
                            \<lparr>req_authorization := bearer (fst (refreshAuthToken env))\<rparr>)]
             else [Fetch (first_request base env endpoint options)])
        \<and> fst (send_request base env fetch endpoint options)
          = (if usable (fst (refreshAuthToken env))
             then fetch 1 ((first_request base env endpoint options)
                            \<lparr>req_authorization := bearer (fst (refreshAuthToken env))\<rparr>)
             else Responded r401))
   \<and> (fst (send_request base env fetch endpoint options) = Responded r
        \<and> \<not> ok r \<and> json_body r \<noteq> Some JNull \<longrightarrow>
        fst (apiRequest base env fetch endpoint options)
          = Inl (ApiError (status r)
                   (case Option.bind (json_body r) (\<lambda>d. field d ''detail'') of
                      None \<Rightarrow> JStr ''An error occurred''
                    | Some d \<Rightarrow> if truthy d then d else JStr ''An error occurred'')))
   \<and> (fst (send_request base env fetch endpoint options) = Responded r
        \<and> \<not> ok r \<and> json_body r = Some JNull \<longrightarrow>
        fst (apiRequest base env fetch endpoint options) = Inl Property_of_null)
   \<and> (fst (apiRequest base env fetch endpoint options) = Inr v \<longrightarrow>
        (\<exists>r'. fst (send_request base env fetch endpoint options) = Responded r'
            \<and> ok r' \<and> json_body r' = Some v))"
proof -
  let ?rq = "first_request base env endpoint options"
  have a: "snd (apiRequest base env fetch endpoint options)
     = snd (send_request base env fetch endpoint options)"
    by (simp add: apiRequest_def Let_def)
  have b: "length (filter is_fetch (snd (send_request base env fetch endpoint options))) \<le> 2"
    by (simp add: send_request_def Let_def first_token_effects refresh_token_effects
        split: fetch_outcome.splits)
  have c: "length (filter is_forced_refresh (snd (send_request base env fetch endpoint options))) \<le> 1"
    by (simp add: send_request_def Let_def first_token_effects refresh_token_effects
        is_forced_refresh_Fetch refresh_effects split: fetch_outcome.splits)
  have d: "filter is_forced_refresh (snd (send_request base env fetch endpoint options))
          = (if isFirebaseConfigured env \<and> currentUser env \<noteq> None then [GetIdToken True] else [])
        \<and> filter is_fetch (snd (send_request base env fetch endpoint options))
          = (if usable (fst (refreshAuthToken env))
             then [Fetch ?rq, Fetch (?rq\<lparr>req_authorization := bearer (fst (refreshAuthToken env))\<rparr>)]
             else [Fetch ?rq])
        \<and> fst (send_request base env fetch endpoint options)
          = (if usable (fst (refreshAuthToken env))
             then fetch 1 (?rq\<lparr>req_authorization := bearer (fst (refreshAuthToken env))\<rparr>)
             else Responded r401)"
    if "requireAuth_of options" "fetch 0 ?rq = Responded r401" "status r401 = 401"
    using that
    by (simp add: send_request_def Let_def first_token_effects refresh_token_effects
        is_forced_refresh_Fetch refresh_effects is_forced_refresh_def)
  have e: "fst (apiRequest base env fetch endpoint options)
          = Inl (ApiError (status r)
                   (case Option.bind (json_body r) (\<lambda>d. field d ''detail'') of
                      None \<Rightarrow> JStr ''An error occurred''
                    | Some d \<Rightarrow> if truthy d then d else JStr ''An error occurred''))"
    if "fst (send_request base env fetch endpoint options) = Responded r"
       "\<not> ok r" "json_body r \<noteq> Some JNull"
  proof (cases "json_body r")
    case None
    with that show ?thesis
      by (simp add: apiRequest_def Let_def read_response_def new_ApiError_def)
  next
    case (Some body)
    with that have "body \<noteq> JNull" by simp
    with that Some show ?thesis
      by (cases body) (simp_all add: apiRequest_def Let_def read_response_def new_ApiError_def)
  qed
  have n: "fst (apiRequest base env fetch endpoint options) = Inl Property_of_null"
    if "fst (send_request base env fetch endpoint options) = Responded r"
       "\<not> ok r" "json_body r = Some JNull"
    using that by (simp add: apiRequest_def Let_def read_response_def new_ApiError_def)
  have f: "\<exists>r'. fst (send_request base env fetch endpoint options) = Responded r'
            \<and> ok r' \<and> json_body r' = Some v"
    if "fst (apiRequest base env fetch endpoint options) = Inr v"
    using that
    by (auto simp: apiRequest_def Let_def read_response_def
        split: fetch_outcome.splits if_splits option.splits)
  show ?thesis using a b c d e n f by simp
qed

text \<open>
  Claim C10, at sample inputs. A signed-in user with an expired token gets a 401, the
  token is refreshed and the retry succeeds; without a user the 401 becomes an ApiError
  with the status and the detail of the response; a 502 whose body is not JSON becomes
  an ApiError with the default message. A 500 whose body is the JSON text \<^verbatim>\<open>null\<close> is
  rejected with the TypeError, where the streaming client, reading the same body of a
  response that is not ok, reports its default message.
\<close>

theorem apiRequest_retries_once_witness:
  "apiRequest [] signed_in expiring_server ''/api/v1/appraisals?limit=20&offset=0'' default_options
     = (Inr (JObj [(''total'', JNum 0)]),
        [GetIdToken False,
         Fetch \<lparr>req_url = ''/api/v1/appraisals?limit=20&offset=0'', req_method = ''GET'',
                req_authorization = Some ''Bearer old'', req_body = None\<rparr>,
         GetIdToken True,
         Fetch \<lparr>req_url = ''/api/v1/appraisals?limit=20&offset=0'', req_method = ''GET'',
                req_authorization = Some ''Bearer new'', req_body = None\<rparr>])
   \<and> requireAuth_of default_options
   \<and> filter is_forced_refresh
        (snd (apiRequest [] signed_in expiring_server ''/api/v1/appraisals?limit=20&offset=0''
                default_options)) = [GetIdToken True]
   \<and> fst (send_request [] signed_out expiring_server ''/api/v1/appraisals?limit=20&offset=0''
             default_options)
     = Responded \<lparr>status = 401, json_body = Some (JObj [(''detail'', JStr ''Token expired'')])\<rparr>
   \<and> fst (apiRequest [] signed_out expiring_server ''/api/v1/appraisals?limit=20&offset=0''
             default_options)
     = Inl (ApiError 401 (JStr ''Token expired''))
   \<and> fst (apiRequest [] signed_out not_json_server ''/api/v1/appraisals?limit=20&offset=0''
             default_options)
     = Inl (ApiError 502 (JStr ''An error occurred''))
   \<and> fst (send_request [] signed_out null_body_server ''/api/v1/appraisals?limit=20&offset=0''
             default_options)
     = Responded \<lparr>status = 500, json_body = Some JNull\<rparr>
   \<and> fst (apiRequest [] signed_out null_body_server ''/api/v1/appraisals?limit=20&offset=0''
             default_options)
     = Inl Property_of_null
   \<and> createAnalysisStream sample_parse (Response False (Some JNull) (Body [''null''] Done))
     = [OnError (Err ''Error'' (Some (JStr ''API request failed'')))]"
proof -
  let ?ep = "''/api/v1/appraisals?limit=20&offset=0''"
  let ?r401 = "\<lparr>status = 401, json_body = Some (JObj [(''detail'', JStr ''Token expired'')])\<rparr>"
  let ?r502 = "\<lparr>status = 502, json_body = None\<rparr>"
  let ?r500 = "\<lparr>status = 500, json_body = Some JNull\<rparr>"
  have run: "apiRequest [] signed_in expiring_server ?ep default_options
     = (Inr (JObj [(''total'', JNum 0)]),
        [GetIdToken False,
         Fetch \<lparr>req_url = ?ep, req_method = ''GET'',
                req_authorization = Some ''Bearer old'', req_body = None\<rparr>,
         GetIdToken True,
         Fetch \<lparr>req_url = ?ep, req_method = ''GET'',
                req_authorization = Some ''Bearer new'', req_body = None\<rparr>])"
    by (simp add: api_eval_defs)
  have ra: "requireAuth_of default_options"
    by (simp add: requireAuth_of_def default_options_def)
  have first: "expiring_server 0 (first_request [] signed_in ?ep default_options) = Responded ?r401"
    by (simp add: api_eval_defs)
  have st: "status ?r401 = 401" by simp
  have user: "isFirebaseConfigured signed_in \<and> currentUser signed_in \<noteq> None"
    by (simp add: signed_in_def)
  have out: "fst (send_request [] signed_out expiring_server ?ep default_options) = Responded ?r401"
    by (simp add: api_eval_defs)
  have bad: "\<not> ok ?r401 \<and> json_body ?r401 \<noteq> Some JNull" by (simp add: ok_def)
  have out2: "fst (send_request [] signed_out not_json_server ?ep default_options) = Responded ?r502"
    by (simp add: api_eval_defs not_json_server_def)
  have bad2: "\<not> ok ?r502 \<and> json_body ?r502 \<noteq> Some JNull" by (simp add: ok_def)
  have out3: "fst (send_request [] signed_out null_body_server ?ep default_options) = Responded ?r500"
    by (simp add: api_eval_defs)
  have bad3: "\<not> ok ?r500 \<and> json_body ?r500 = Some JNull" by (simp add: ok_def)
  have sib: "createAnalysisStream sample_parse (Response False (Some JNull) (Body [''null''] Done))
     = [OnError (Err ''Error'' (Some (JStr ''API request failed'')))]"
    by (simp add: createAnalysisStream_def catch_block_def error_message_def)
  note t1 = apiRequest_retries_once_after_401
      [of "[]" signed_in expiring_server ?ep default_options ?r401 ?r401 JNull]
  note t2 = apiRequest_retries_once_after_401
      [of "[]" signed_out expiring_server ?ep default_options ?r401 ?r401 JNull]
  note t3 = apiRequest_retries_once_after_401
      [of "[]" signed_out not_json_server ?ep default_options ?r401 ?r502 JNull]
  note t4 = apiRequest_retries_once_after_401
      [of "[]" signed_out null_body_server ?ep default_options ?r401 ?r500 JNull]
  from t1 ra first st have "filter is_forced_refresh
        (snd (apiRequest [] signed_in expiring_server ?ep default_options))
      = (if isFirebaseConfigured signed_in \<and> currentUser signed_in \<noteq> None
         then [GetIdToken True] else [])"
    by blast
  with user have 1: "filter is_forced_refresh
        (snd (apiRequest [] signed_in expiring_server ?ep default_options)) = [GetIdToken True]"
    by simp
  from t2 out bad have "fst (apiRequest [] signed_out expiring_server ?ep default_options)
     = Inl (ApiError (status ?r401)
              (case Option.bind (json_body ?r401) (\<lambda>d. field d ''detail'') of
                 None \<Rightarrow> JStr ''An error occurred''
               | Some d \<Rightarrow> if truthy d then d else JStr ''An error occurred''))"
    by blast
  then have 2: "fst (apiRequest [] signed_out expiring_server ?ep default_options)
     = Inl (ApiError 401 (JStr ''Token expired''))"
    by simp
  from t3 out2 bad2 have "fst (apiRequest [] signed_out not_json_server ?ep default_options)
     = Inl (ApiError (status ?r502)
              (case Option.bind (json_body ?r502) (\<lambda>d. field d ''detail'') of
                 None \<Rightarrow> JStr ''An error occurred''
               | Some d \<Rightarrow> if truthy d then d else JStr ''An error occurred''))"
    by blast
  then have 3: "fst (apiRequest [] signed_out not_json_server ?ep default_options)
     = Inl (ApiError 502 (JStr ''An error occurred''))"
    by simp
  from t4 out3 bad3 have 4: "fst (apiRequest [] signed_out null_body_server ?ep default_options)
     = Inl Property_of_null"
    by blast
  from run ra 1 out 2 3 out3 4 sib show ?thesis by simp
qed


end
